(* ===== verification/Prelude.thy ===== *)
theory Prelude
  imports Main
begin

text \<open>
  Shared vocabulary of the development: the types that name the values the two
  scripts handle (addresses, service URIs, the exceptions the Python runtime and the
  remote calls raise), the pieces of the Python runtime both scripts rely on
  (truthiness of strings, \<open>sum\<close>, \<open>str.lower\<close>, list comprehensions that may
  raise) and the generic lemmas on lists and sums that the component theories share.
  The collection \<open>py_simps\<close> gathers the characteristic equations of these runtime
  functions; component proofs use it with \<open>simp add: py_simps\<close>.
\<close>

named_theorems py_simps "characteristic equations of the modelled Python runtime"

section \<open>Values\<close>

text \<open>
  Addresses are the hexadecimal strings \<open>web3\<close> returns (\<open>0x\<close> followed by forty
  hex digits, checksummed); URIs are the strings \<open>getServiceURI\<close> returns. Both are
  Python \<open>str\<close>, hence \<open>string\<close>.
\<close>

type_synonym address = string
type_synonym uri = string

text \<open>
  The exceptions that matter to the control flow. A remote call that fails raises an
  exception whose content the scripts only print; it is kept as an opaque message.
\<close>

datatype exc =
    RemoteError string  \<comment> \<open>any exception raised by a contract call or a GraphQL request\<close>
  | ValueError string   \<comment> \<open>\<open>raise ValueError(...)\<close>, or \<open>float()\<close> of a malformed string\<close>
  | TypeError string    \<comment> \<open>iterating over \<open>None\<close>\<close>
  | FileNotFoundError string
  | KeyError string
  | IndexError string

text \<open>
  What \<open>get_ai_orchs.py\<close> prints, one constructor per \<open>print\<close> call shape:
  fixed progress messages, the \<open>An error occurred: {e}\<close> diagnostics of both
  loops, the per-orchestrator line of the URI loop and the final count.
\<close>

datatype out_line =
    Text string
  | AnErrorOccurred exc
  | OrchestratorURI address uri
  | TotalAIOrchestrators nat

section \<open>Python runtime\<close>

text \<open>Truthiness of a \<open>str\<close>: \<open>if s:\<close> holds exactly for a non-empty string.\<close>

definition py_truthy_str :: "string \<Rightarrow> bool" where
  "py_truthy_str s \<longleftrightarrow> s \<noteq> []"

lemma py_truthy_str_iff [simp, py_simps]: "py_truthy_str s \<longleftrightarrow> s \<noteq> []"
  by (simp add: py_truthy_str_def)

text \<open>
  \<open>sum(xs)\<close> starts from the integer \<open>0\<close> and adds the elements from left to right.
  The addition is the element type's own; no associativity is assumed, so for Python
  floats the model keeps the exact order of the additions.
\<close>

definition py_sum :: "'a::{zero,plus} list \<Rightarrow> 'a" where
  "py_sum xs = foldl (+) 0 xs"

lemma py_sum_Nil [simp, py_simps]: "py_sum [] = 0"
  by (simp add: py_sum_def)

text \<open>With an associative addition the left fold is the library's \<open>sum_list\<close>.\<close>

lemma foldl_plus_sum_list: "foldl (+) (a::'a::monoid_add) xs = a + sum_list xs"
  by (induction xs arbitrary: a) (simp_all add: add.assoc)

lemma py_sum_sum_list [py_simps]: "py_sum (xs::'a::monoid_add list) = sum_list xs"
  by (simp add: py_sum_def foldl_plus_sum_list)

text \<open>
  \<open>str.lower\<close> on the ASCII range: the letters \<open>A\<close>..\<open>Z\<close> move to \<open>a\<close>..\<open>z\<close>,
  every other character is kept. The addresses lowered by the scripts are ASCII.
\<close>

definition py_lower_char :: "char \<Rightarrow> char" where
  "py_lower_char c =
     (let n = (of_char c :: nat) in if 65 \<le> n \<and> n \<le> 90 then char_of (n + 32) else c)"

definition py_lower :: "string \<Rightarrow> string" where
  "py_lower s = map py_lower_char s"

lemma length_py_lower [simp]: "length (py_lower s) = length s"
  by (simp add: py_lower_def)

lemma py_lower_char_not_upper:
  "\<not> (65 \<le> (of_char (py_lower_char c) :: nat) \<and> (of_char (py_lower_char c) :: nat) \<le> 90)"
  by (auto simp: py_lower_char_def Let_def)

lemma py_lower_char_idem [simp]: "py_lower_char (py_lower_char c) = py_lower_char c"
  using py_lower_char_not_upper [of c] by (auto simp: py_lower_char_def [of "py_lower_char c"] Let_def)

lemma py_lower_idem [simp]: "py_lower (py_lower s) = py_lower s"
  by (simp add: py_lower_def comp_def)

text \<open>
  A list comprehension \<open>[f(x) for x in xs]\<close> whose \<open>f\<close> may raise: the first
  exception aborts the whole comprehension.
\<close>

fun py_map_exc :: "('a \<Rightarrow> exc + 'b) \<Rightarrow> 'a list \<Rightarrow> exc + 'b list" where
  "py_map_exc f [] = Inr []"
| "py_map_exc f (x # xs) =
     (case f x of
        Inl e \<Rightarrow> Inl e
      | Inr y \<Rightarrow> (case py_map_exc f xs of Inl e \<Rightarrow> Inl e | Inr ys \<Rightarrow> Inr (y # ys)))"

lemma py_map_exc_Inr_iff:
  "py_map_exc f xs = Inr ys \<longleftrightarrow> list_all2 (\<lambda>x y. f x = Inr y) xs ys"
proof (induction xs arbitrary: ys)
  case Nil
  show ?case by auto
next
  case (Cons x xs)
  show ?case
    by (auto simp: list_all2_Cons1 Cons.IH [symmetric] split: sum.splits)
qed

lemma py_map_exc_map [py_simps]: "py_map_exc (\<lambda>x. Inr (g x)) xs = Inr (map g xs)"
  by (induction xs) simp_all

lemma py_map_exc_all_Inr [py_simps]:
  "\<forall>x\<in>set xs. f x = Inr (g x) \<Longrightarrow> py_map_exc f xs = Inr (map g xs)"
  by (induction xs) simp_all

section \<open>Shared lemmas on lists\<close>

lemma filter_map_fst_distinct:
  "distinct (map fst xs) \<Longrightarrow> distinct (map fst (filter P xs))"
  by (induction xs) (auto simp: image_iff)

end
