(* ===== verification/Checksum.thy ===== *)
theory Checksum
  imports Prelude
begin

text \<open>
  \<open>Web3.to_checksum_address\<close> as \<open>src/get_ai_orchs.py\<close> calls it (line 22 for the
  null address, lines 81 and 85 for the contract addresses). The address is
  normalised to lower case; then each hex letter is upper-cased when the matching hex
  digit of the keccak-256 hash of the normalised text is above 7. The hash is a
  parameter (\<open>keccak_nibble text i\<close> is the \<open>i\<close>-th hex digit of the hash of
  \<open>text\<close>): no property below depends on its values. As in \<open>eth_utils\<close>
  (\<open>to_normalized_address\<close>, \<open>remove_0x_prefix\<close>, \<open>is_hex_address\<close>), a text
  address is forty hex digits with an optional \<open>0x\<close> or \<open>0X\<close> prefix; anything
  else raises \<open>ValueError\<close>. The result always carries the \<open>0x\<close> prefix.
\<close>

definition is_hex_char :: "char \<Rightarrow> bool" where
  "is_hex_char c \<longleftrightarrow> c \<in> set ''0123456789abcdefABCDEF''"

definition py_upper_char :: "char \<Rightarrow> char" where
  "py_upper_char c =
     (let n = (of_char c :: nat) in if 97 \<le> n \<and> n \<le> 122 then char_of (n - 32) else c)"

definition remove_0x_prefix :: "string \<Rightarrow> string" where
  "remove_0x_prefix s = (if take 2 s = ''0x'' \<or> take 2 s = ''0X'' then drop 2 s else s)"

definition is_hex_address :: "string \<Rightarrow> bool" where
  "is_hex_address s \<longleftrightarrow>
     length (remove_0x_prefix s) = 40 \<and> list_all is_hex_char (remove_0x_prefix s)"

definition to_checksum_address :: "(string \<Rightarrow> nat \<Rightarrow> nat) \<Rightarrow> string \<Rightarrow> exc + string" where
  "to_checksum_address keccak_nibble value =
     (let hex = remove_0x_prefix value in
      if length hex \<noteq> 40 \<or> \<not> list_all is_hex_char hex
      then Inl (ValueError value)
      else
        (let norm = py_lower hex
         in Inr (''0x'' @ map (\<lambda>(i, c). if 7 < keccak_nibble norm i then py_upper_char c else c)
                               (enumerate 0 norm))))"

text \<open>
  A well-formed address in the form \<open>to_checksum_address\<close> returns and the script
  writes: \<open>0x\<close> followed by forty hex digits (of either case).
\<close>

definition is_address :: "string \<Rightarrow> bool" where
  "is_address s \<longleftrightarrow> take 2 s = ''0x'' \<and> length (drop 2 s) = 40 \<and> list_all is_hex_char (drop 2 s)"

section \<open>Lemmas\<close>

lemma map_enumerate_fixed:
  "\<forall>c\<in>set s. py_upper_char c = c \<Longrightarrow>
   map (\<lambda>(i, c). if P i then py_upper_char c else c) (enumerate n s) = s"
  by (induction s arbitrary: n) auto

lemma py_lower_upper_lower [simp]: "py_lower_char (py_upper_char (py_lower_char c)) = py_lower_char c"
  by (auto simp: py_upper_char_def py_lower_char_def Let_def)

lemma hex_chars_closed:
  "\<forall>c\<in>set ''0123456789abcdefABCDEF''.
     is_hex_char (py_lower_char c) \<and> is_hex_char (py_upper_char (py_lower_char c))"
  by code_simp

lemma is_hex_lower: "is_hex_char c \<Longrightarrow> is_hex_char (py_lower_char c)"
  using hex_chars_closed unfolding is_hex_char_def [of c] by blast

lemma is_hex_upper_lower: "is_hex_char c \<Longrightarrow> is_hex_char (py_upper_char (py_lower_char c))"
  using hex_chars_closed unfolding is_hex_char_def [of c] by blast

lemma map_enumerate_lower:
  "py_lower (map (\<lambda>(i, c). if P i then py_upper_char c else c) (enumerate n (py_lower s))) = py_lower s"
  by (induction s arbitrary: n) (auto simp: py_lower_def)

lemma map_enumerate_hex:
  "list_all is_hex_char s \<Longrightarrow>
   list_all is_hex_char (map (\<lambda>(i, c). if P i then py_upper_char c else c) (enumerate n (py_lower s)))"
  by (induction s arbitrary: n) (auto simp: py_lower_def is_hex_upper_lower is_hex_lower)

lemma py_lower_append [simp]: "py_lower (a @ b) = py_lower a @ py_lower b"
  by (simp add: py_lower_def)

lemma py_lower_0x [simp]: "py_lower ''0x'' = ''0x''"
  by code_simp

lemma to_checksum_address_Inr:
  assumes "to_checksum_address h v = Inr r"
  shows "is_hex_address v \<and>
    r = ''0x'' @ map (\<lambda>(i, c). if 7 < h (py_lower (remove_0x_prefix v)) i then py_upper_char c else c)
                     (enumerate 0 (py_lower (remove_0x_prefix v)))"
  using assms by (auto simp: to_checksum_address_def is_hex_address_def Let_def split: if_splits)

lemma to_checksum_address_lower:
  assumes "to_checksum_address h v = Inr r"
  shows "py_lower r = ''0x'' @ py_lower (remove_0x_prefix v)"
  using to_checksum_address_Inr [OF assms] by (simp only: py_lower_append py_lower_0x map_enumerate_lower)

lemma py_lower_0X [simp]: "py_lower ''0X'' = ''0x''"
  by code_simp

lemma py_lower_remove_0x_prefix:
  "take 2 v = ''0x'' \<or> take 2 v = ''0X'' \<Longrightarrow> ''0x'' @ py_lower (remove_0x_prefix v) = py_lower v"
proof -
  assume pre: "take 2 v = ''0x'' \<or> take 2 v = ''0X''"
  have "py_lower v = py_lower (take 2 v @ drop 2 v)" by simp
  also have "\<dots> = ''0x'' @ py_lower (drop 2 v)" using pre by (auto simp only: py_lower_append py_lower_0x py_lower_0X)
  finally show ?thesis using pre by (simp add: remove_0x_prefix_def)
qed

lemma to_checksum_address_lower_0x:
  assumes "to_checksum_address h v = Inr r" and "take 2 v = ''0x''"
  shows "py_lower r = py_lower v"
proof -
  from assms(1) have "py_lower r = ''0x'' @ py_lower (remove_0x_prefix v)"
    by (rule to_checksum_address_lower)
  also have "\<dots> = py_lower v" using assms(2) by (blast intro: py_lower_remove_0x_prefix)
  finally show ?thesis .
qed

lemma remove_0x_prefix_0x [simp]: "remove_0x_prefix (CHR ''0'' # CHR ''x'' # s) = s"
  by (simp add: remove_0x_prefix_def)

lemma is_address_hex: "is_address v \<Longrightarrow> is_hex_address v"
  by (simp add: is_address_def is_hex_address_def remove_0x_prefix_def)

lemma to_checksum_address_is_address:
  assumes "to_checksum_address h v = Inr r"
  shows "is_hex_address v \<and> is_address r \<and> length r = 42"
proof -
  from to_checksum_address_Inr [OF assms] have hexa: "is_hex_address v"
    and r: "r = ''0x'' @ map (\<lambda>(i, c). if 7 < h (py_lower (remove_0x_prefix v)) i then py_upper_char c else c)
                     (enumerate 0 (py_lower (remove_0x_prefix v)))"
    by blast+
  from hexa have len: "length (remove_0x_prefix v) = 40"
    and hex: "list_all is_hex_char (remove_0x_prefix v)"
    by (simp_all add: is_hex_address_def)
  have "list_all is_hex_char (drop 2 r)"
    using map_enumerate_hex [OF hex] by (simp add: r)
  with hexa len show ?thesis by (simp add: is_address_def r py_lower_def)
qed

lemma to_checksum_address_Inl:
  "\<not> is_hex_address v \<Longrightarrow> to_checksum_address h v = Inl (ValueError v)"
  by (auto simp: is_hex_address_def to_checksum_address_def)

lemma is_address_checksum:
  "is_hex_address v \<Longrightarrow> \<exists>r. to_checksum_address h v = Inr r"
  by (auto simp: is_hex_address_def to_checksum_address_def Let_def)

lemma is_address_no_sep:
  "is_address a \<Longrightarrow> CHR ''\<newline>'' \<notin> set a \<and> CHR '' '' \<notin> set a"
proof -
  assume a: "is_address a"
  have hex: "\<not> is_hex_char CHR ''\<newline>'' \<and> \<not> is_hex_char CHR '' ''"
    by (simp add: is_hex_char_def)
  from a have "take 2 a = ''0x''" and "list_all is_hex_char (drop 2 a)"
    by (simp_all add: is_address_def)
  then have "\<forall>c\<in>set (take 2 a @ drop 2 a). c \<noteq> CHR ''\<newline>'' \<and> c \<noteq> CHR '' ''"
    using hex by (auto simp: list_all_iff)
  then show ?thesis by auto
qed

lemma to_checksum_address_fixed:
  assumes "to_checksum_address h v = Inr r"
  shows "to_checksum_address h r = Inr r"
proof -
  let ?f = "\<lambda>(i, c). if 7 < h (py_lower (remove_0x_prefix v)) i then py_upper_char c else c"
  from to_checksum_address_Inr [OF assms] have r: "r = ''0x'' @ map ?f (enumerate 0 (py_lower (remove_0x_prefix v)))"
    by blast
  from to_checksum_address_is_address [OF assms] have "is_hex_address r"
    by (blast intro: is_address_hex)
  moreover have "py_lower (remove_0x_prefix r) = py_lower (remove_0x_prefix v)"
    by (simp add: r map_enumerate_lower)
  ultimately show ?thesis
    by (simp add: to_checksum_address_def is_hex_address_def Let_def) (simp add: r)
qed

lemma to_checksum_address_cases:
  "(case to_checksum_address h v of
      Inl e \<Rightarrow> e = ValueError v \<and> \<not> is_hex_address v
    | Inr r \<Rightarrow> is_hex_address v \<and> is_address r \<and> length r = 42)"
proof (cases "is_hex_address v")
  case True
  then obtain r where "to_checksum_address h v = Inr r" by (blast dest: is_address_checksum)
  then show ?thesis using to_checksum_address_is_address by simp
next
  case False
  then show ?thesis by (simp add: to_checksum_address_Inl)
qed

end
