(* ===== verification/Pool.thy ===== *)
theory Pool
  imports Checksum
begin

text \<open>
  The transcoder pool walk of \<open>src/get_ai_orchs.py\<close> (\<open>get_transcoder_pool\<close>,
  lines 28--51). The BondingManager contract is seen through the two view calls the
  script makes; the walk is an unbounded \<open>while True\<close> loop, modelled by
  \<open>partial_function (option)\<close> so that a walk that never meets the sentinel is the
  value \<open>None\<close>. The abstract specification is the inductive relation
  \<open>pool_walk\<close> (the finite walks along \<open>getNextTranscoderInPool\<close>) and the
  predicate \<open>pool_holds\<close> (the contract's pool is a given list).
\<close>

section \<open>The contract interface\<close>

text \<open>
  A contract instance, as far as the script uses it: the result of each view call,
  either an address or the exception \<open>.call()\<close> raised. The calls are reads of one
  pool state, so each is a function of its argument.
\<close>

record bonding_manager =
  getFirstTranscoderInPool :: "exc + address"
  getNextTranscoderInPool :: "address \<Rightarrow> exc + address"

text \<open>
  \<open>NULL_ADDRESS = Web3.to_checksum_address('0x' + '0' * 40)\<close> (line 22): the
  all-zero address, which checksumming leaves unchanged whatever the hash (it has no
  letters; theorem \<open>null_address_checksum\<close>).
\<close>

definition NULL_ADDRESS :: address where
  "NULL_ADDRESS = ''0x'' @ replicate 40 CHR ''0''"

section \<open>The walk\<close>

text \<open>
  The \<open>while True\<close> loop of lines 40--47, with \<open>current_transcoder_addr\<close> and
  \<open>transcoders\<close> as parameters. The outer \<open>try\<close> turns an exception of a call
  into an early exit, kept here as \<open>Inl\<close>.
\<close>

partial_function (option) pool_loop ::
  "bonding_manager \<Rightarrow> address \<Rightarrow> address list \<Rightarrow> (exc + address list) option" where
  "pool_loop bm current_transcoder_addr transcoders =
     (case getNextTranscoderInPool bm current_transcoder_addr of
        Inl e \<Rightarrow> Some (Inl e)
      | Inr next_transcoder_addr \<Rightarrow>
          if next_transcoder_addr = NULL_ADDRESS then Some (Inr transcoders)
          else pool_loop bm next_transcoder_addr (transcoders @ [next_transcoder_addr]))"

declare pool_loop.simps [code]

text \<open>
  The whole function: the first call, the loop, and the \<open>except\<close> branch that prints
  the exception and returns \<open>None\<close>. The result is \<open>None\<close> when the loop does not
  return, otherwise the Python return value together with what was printed.
\<close>

definition get_transcoder_pool ::
  "bonding_manager \<Rightarrow> (address list option \<times> out_line list) option" where
  "get_transcoder_pool bm =
     (case getFirstTranscoderInPool bm of
        Inl e \<Rightarrow> Some (None, [AnErrorOccurred e])
      | Inr current_transcoder_addr \<Rightarrow>
          map_option
            (\<lambda>r. case r of Inl e \<Rightarrow> (None, [AnErrorOccurred e]) | Inr ts \<Rightarrow> (Some ts, []))
            (pool_loop bm current_transcoder_addr [current_transcoder_addr]))"

section \<open>Abstract specification\<close>

text \<open>
  \<open>pool_walk bm a xs r\<close>: starting after address \<open>a\<close>, repeated
  \<open>getNextTranscoderInPool\<close> calls return the non-null addresses \<open>xs\<close> in order and
  then stop, with the sentinel (\<open>r = None\<close>) or with the exception \<open>e\<close> of a call
  (\<open>r = Some e\<close>).
\<close>

inductive pool_walk :: "bonding_manager \<Rightarrow> address \<Rightarrow> address list \<Rightarrow> exc option \<Rightarrow> bool" where
  walk_error: "getNextTranscoderInPool bm a = Inl e \<Longrightarrow> pool_walk bm a [] (Some e)"
| walk_end: "getNextTranscoderInPool bm a = Inr NULL_ADDRESS \<Longrightarrow> pool_walk bm a [] None"
| walk_next: "getNextTranscoderInPool bm a = Inr b \<Longrightarrow> b \<noteq> NULL_ADDRESS \<Longrightarrow>
     pool_walk bm b xs r \<Longrightarrow> pool_walk bm a (b # xs) r"

inductive_cases pool_walk_NilE: "pool_walk bm a [] r"
inductive_cases pool_walk_ConsE: "pool_walk bm a (b # xs) r"

text \<open>The loop's result for a walk, on top of the accumulated list.\<close>

definition walk_result :: "exc option \<Rightarrow> address list \<Rightarrow> exc + address list" where
  "walk_result r ts = (case r of Some e \<Rightarrow> Inl e | None \<Rightarrow> Inr ts)"

text \<open>
  The pool as the contract holds it: the list \<open>xs\<close> of non-null addresses such that
  \<open>getFirstTranscoderInPool\<close> returns the head (the sentinel for an empty pool) and
  \<open>getNextTranscoderInPool\<close> leads from each to the next and from the last to the
  sentinel. Executable, so that concrete pools evaluate.
\<close>

fun chain_from :: "bonding_manager \<Rightarrow> address \<Rightarrow> address list \<Rightarrow> bool" where
  "chain_from bm a [] \<longleftrightarrow> getNextTranscoderInPool bm a = Inr NULL_ADDRESS"
| "chain_from bm a (b # bs) \<longleftrightarrow>
     b \<noteq> NULL_ADDRESS \<and> getNextTranscoderInPool bm a = Inr b \<and> chain_from bm b bs"

definition pool_holds :: "bonding_manager \<Rightarrow> address list \<Rightarrow> bool" where
  "pool_holds bm xs \<longleftrightarrow>
     (case xs of
        [] \<Rightarrow> getFirstTranscoderInPool bm = Inr NULL_ADDRESS
      | x # xs' \<Rightarrow> x \<noteq> NULL_ADDRESS \<and> getFirstTranscoderInPool bm = Inr x \<and> chain_from bm x xs')"

section \<open>Example contracts\<close>

text \<open>
  Concrete contract views used by the witnesses: a pool of two orchestrators, a view
  whose third \<open>getNextTranscoderInPool\<close> call fails, a pool whose links form a
  cycle, and the empty pool (the contract's \<open>getNext\<close> of the sentinel is the
  sentinel, as for any address that is not in its list).
\<close>

definition example_addr :: "nat \<Rightarrow> address" where
  "example_addr n = ''0x'' @ replicate 39 CHR ''0'' @ [char_of (48 + n)]"

definition example_next :: "address list \<Rightarrow> exc + address \<Rightarrow> address \<Rightarrow> exc + address" where
  "example_next xs at_end a =
     (case find (\<lambda>i. xs ! i = a) [0..<length xs] of
        Some i \<Rightarrow> (if Suc i < length xs then Inr (xs ! Suc i) else at_end)
      | None \<Rightarrow> Inr NULL_ADDRESS)"

definition two_pool_bm :: bonding_manager where
  "two_pool_bm = \<lparr>getFirstTranscoderInPool = Inr (example_addr 1),
     getNextTranscoderInPool = example_next [example_addr 1, example_addr 2] (Inr NULL_ADDRESS)\<rparr>"

definition third_call_fails_bm :: bonding_manager where
  "third_call_fails_bm = \<lparr>getFirstTranscoderInPool = Inr (example_addr 1),
     getNextTranscoderInPool =
       example_next [example_addr 1, example_addr 2, example_addr 3] (Inl (RemoteError ''timeout''))\<rparr>"

definition cyclic_bm :: bonding_manager where
  "cyclic_bm = \<lparr>getFirstTranscoderInPool = Inr (example_addr 1),
     getNextTranscoderInPool = example_next [example_addr 1, example_addr 2] (Inr (example_addr 1))\<rparr>"

definition empty_pool_bm :: bonding_manager where
  "empty_pool_bm = \<lparr>getFirstTranscoderInPool = Inr NULL_ADDRESS,
     getNextTranscoderInPool = (\<lambda>_. Inr NULL_ADDRESS)\<rparr>"

section \<open>The loop refines the walk\<close>

lemma pool_loop_step:
  "getNextTranscoderInPool bm a = Inr b \<Longrightarrow> b \<noteq> NULL_ADDRESS \<Longrightarrow>
   pool_loop bm a acc = pool_loop bm b (acc @ [b])"
  by (simp add: pool_loop.simps [of bm a acc])

lemma pool_loop_walk:
  "pool_walk bm a xs r \<Longrightarrow> pool_loop bm a acc = Some (walk_result r (acc @ xs))"
proof (induction arbitrary: acc rule: pool_walk.induct)
  case (walk_error bm a e)
  then show ?case by (simp add: pool_loop.simps walk_result_def)
next
  case (walk_end bm a)
  then show ?case by (simp add: pool_loop.simps walk_result_def)
next
  case (walk_next bm a b xs r)
  then show ?case by (simp add: pool_loop_step)
qed

lemma pool_loop_Some_walk:
  assumes "pool_loop bm a acc = Some res"
  shows "\<exists>xs r. pool_walk bm a xs r \<and> res = walk_result r (acc @ xs)"
proof (rule pool_loop.raw_induct [where P = "\<lambda>bm a acc res.
    \<exists>xs r. pool_walk bm a xs r \<and> res = walk_result r (acc @ xs)", OF _ assms])
  fix f bm a acc res
  assume IH: "\<And>bm a acc res. f bm a acc = Some res \<Longrightarrow>
      \<exists>xs r. pool_walk bm a xs r \<and> res = walk_result r (acc @ xs)"
    and eq: "(case getNextTranscoderInPool bm a of
        Inl e \<Rightarrow> Some (Inl e)
      | Inr b \<Rightarrow> if b = NULL_ADDRESS then Some (Inr acc) else f bm b (acc @ [b])) = Some res"
  show "\<exists>xs r. pool_walk bm a xs r \<and> res = walk_result r (acc @ xs)"
  proof (cases "getNextTranscoderInPool bm a")
    case (Inl e)
    with eq have "res = walk_result (Some e) (acc @ [])" by (simp add: walk_result_def)
    with Inl show ?thesis by (blast intro: walk_error)
  next
    case (Inr b)
    show ?thesis
    proof (cases "b = NULL_ADDRESS")
      case True
      with Inr eq have "res = walk_result None (acc @ [])" by (simp add: walk_result_def)
      with Inr True show ?thesis by (blast intro: walk_end)
    next
      case False
      with Inr eq have "f bm b (acc @ [b]) = Some res" by simp
      then obtain xs r where "pool_walk bm b xs r" and "res = walk_result r ((acc @ [b]) @ xs)"
        using IH by blast
      with Inr False show ?thesis by (auto intro: walk_next)
    qed
  qed
qed

lemma pool_walk_det:
  "pool_walk bm a xs r \<Longrightarrow> pool_walk bm a ys s \<Longrightarrow> xs = ys \<and> r = s"
proof (induction arbitrary: ys s rule: pool_walk.induct)
  case (walk_error bm a e)
  then show ?case by (auto elim: pool_walk.cases)
next
  case (walk_end bm a)
  then show ?case by (auto elim: pool_walk.cases)
next
  case (walk_next bm a b xs r)
  from walk_next.prems walk_next.hyps(1,2) obtain ys' where
    "ys = b # ys'" and "pool_walk bm b ys' s"
    by (auto elim: pool_walk.cases)
  with walk_next.IH show ?case by blast
qed

lemma chain_from_walk: "chain_from bm a xs \<longleftrightarrow> pool_walk bm a xs None"
proof (induction xs arbitrary: a)
  case Nil
  show ?case by (auto intro: walk_end elim: pool_walk_NilE)
next
  case (Cons b bs)
  show ?case using Cons.IH by (auto intro: walk_next elim: pool_walk_ConsE)
qed

lemma chain_from_det: "chain_from bm a xs \<Longrightarrow> chain_from bm a ys \<Longrightarrow> xs = ys"
  by (simp add: chain_from_walk) (blast dest: pool_walk_det)

lemma chain_from_suffix: "chain_from bm a (us @ c # vs) \<Longrightarrow> chain_from bm c vs"
  by (induction us arbitrary: a) auto

lemma chain_from_distinct: "chain_from bm a xs \<Longrightarrow> distinct (a # xs)"
proof (induction xs arbitrary: a)
  case Nil
  show ?case by simp
next
  case (Cons b bs)
  then have "distinct (b # bs)" by (meson chain_from.simps(2))
  moreover have "a \<notin> set (b # bs)"
  proof
    assume "a \<in> set (b # bs)"
    then obtain us vs where split: "b # bs = us @ a # vs" by (blast dest: split_list)
    with Cons.prems have "chain_from bm a vs" by (simp add: chain_from_suffix)
    with Cons.prems split have "us @ a # vs = vs" by (metis chain_from_det)
    then show False by (metis length_append length_Cons lessI not_add_less2)
  qed
  ultimately show ?case by simp
qed

lemma pool_walk_trap:
  assumes "a \<in> S" and "\<forall>x\<in>S. \<exists>y\<in>S. getNextTranscoderInPool bm x = Inr y \<and> y \<noteq> NULL_ADDRESS"
  shows "\<not> pool_walk bm a xs r"
  using assms(1)
proof (induction xs arbitrary: a)
  case Nil
  with assms(2) show ?case by (fastforce elim: pool_walk_NilE)
next
  case (Cons b bs)
  with assms(2) show ?case by (fastforce elim: pool_walk_ConsE)
qed

lemma get_transcoder_pool_Some_list:
  assumes "get_transcoder_pool bm = Some (Some ts, out)"
  shows "\<exists>x. getFirstTranscoderInPool bm = Inr x \<and> pool_loop bm x [x] = Some (Inr ts) \<and> out = []"
proof (cases "getFirstTranscoderInPool bm")
  case (Inl e)
  with assms show ?thesis by (simp add: get_transcoder_pool_def)
next
  case (Inr x)
  with assms obtain r where loop: "pool_loop bm x [x] = Some r"
    and r: "(case r of Inl e \<Rightarrow> (None, [AnErrorOccurred e]) | Inr ts \<Rightarrow> (Some ts, [])) = (Some ts, out)"
    by (auto simp: get_transcoder_pool_def)
  from r have "r = Inr ts \<and> out = []" by (cases r) auto
  with Inr loop show ?thesis by blast
qed

section \<open>Properties of get\_transcoder\_pool\<close>

text \<open>
  C1. On a pool that holds the non-empty list \<open>xs\<close>, \<open>get_transcoder_pool\<close>
  returns exactly \<open>xs\<close>, in pool order, and prints nothing.
\<close>

theorem get_transcoder_pool_enumerates:
  assumes "pool_holds bm xs" and "xs \<noteq> []"
  shows "get_transcoder_pool bm = Some (Some xs, [])"
proof -
  from assms obtain x xs' where xs: "xs = x # xs'" and first: "getFirstTranscoderInPool bm = Inr x"
    and chain: "chain_from bm x xs'"
    by (auto simp: pool_holds_def split: list.splits)
  from chain have "pool_walk bm x xs' None" by (simp add: chain_from_walk)
  then have "pool_loop bm x [x] = Some (Inr (x # xs'))"
    by (simp add: pool_loop_walk walk_result_def)
  with first xs show ?thesis by (simp add: get_transcoder_pool_def)
qed

lemma get_transcoder_pool_enumerates_witness:
  "pool_holds two_pool_bm [example_addr 1, example_addr 2] \<and> [example_addr 1, example_addr 2] \<noteq> [] \<and>
   get_transcoder_pool two_pool_bm = Some (Some [example_addr 1, example_addr 2], [])"
proof -
  have h: "pool_holds two_pool_bm [example_addr 1, example_addr 2]"
    by code_simp
  show ?thesis using h get_transcoder_pool_enumerates [OF h] by simp
qed

text \<open>
  C2. Refinement: the executable loop returns \<open>res\<close> exactly when the abstract
  walk from the current address is finite and ends (at the sentinel or at a failing
  call) with that result on top of the accumulated list.
\<close>

theorem pool_loop_refines_walk:
  "pool_loop bm a acc = Some res \<longleftrightarrow>
   (\<exists>xs r. pool_walk bm a xs r \<and> res = walk_result r (acc @ xs))"
  using pool_loop_walk pool_loop_Some_walk by blast

text \<open>
  C3. Termination: \<open>get_transcoder_pool\<close> returns exactly when its first call fails
  or the walk from the first address is finite.
\<close>

theorem get_transcoder_pool_terminates_iff:
  "get_transcoder_pool bm \<noteq> None \<longleftrightarrow>
   (case getFirstTranscoderInPool bm of
      Inl e \<Rightarrow> True
    | Inr x \<Rightarrow> (\<exists>xs r. pool_walk bm x xs r))"
proof (cases "getFirstTranscoderInPool bm")
  case (Inl e)
  then show ?thesis by (simp add: get_transcoder_pool_def)
next
  case (Inr x)
  have "pool_loop bm x [x] \<noteq> None \<longleftrightarrow> (\<exists>xs r. pool_walk bm x xs r)"
    using pool_loop_walk pool_loop_Some_walk by blast
  with Inr show ?thesis by (simp add: get_transcoder_pool_def)
qed

text \<open>
  C4. The walk has no cycle guard: if the first address lies in a set of non-null
  addresses that \<open>getNextTranscoderInPool\<close> never leaves, the \<open>while True\<close> loop
  never returns.
\<close>

theorem get_transcoder_pool_cycle_diverges:
  assumes "getFirstTranscoderInPool bm = Inr x" and "x \<in> S"
    and "\<forall>a\<in>S. \<exists>b\<in>S. getNextTranscoderInPool bm a = Inr b \<and> b \<noteq> NULL_ADDRESS"
  shows "get_transcoder_pool bm = None"
proof -
  have "pool_loop bm x [x] = None"
    using pool_loop_Some_walk pool_walk_trap [OF assms(2,3)]
    by (cases "pool_loop bm x [x]") blast+
  with assms(1) show ?thesis by (simp add: get_transcoder_pool_def)
qed

lemma get_transcoder_pool_cycle_diverges_witness:
  "getFirstTranscoderInPool cyclic_bm = Inr (example_addr 1) \<and>
   getNextTranscoderInPool cyclic_bm (example_addr 1) = Inr (example_addr 2) \<and>
   getNextTranscoderInPool cyclic_bm (example_addr 2) = Inr (example_addr 1) \<and>
   example_addr 1 \<noteq> NULL_ADDRESS \<and> example_addr 2 \<noteq> NULL_ADDRESS \<and>
   get_transcoder_pool cyclic_bm = None"
proof -
  have h1: "getFirstTranscoderInPool cyclic_bm = Inr (example_addr 1)"
    by (simp add: cyclic_bm_def)
  have h2: "example_addr 1 \<in> {example_addr 1, example_addr 2}" by simp
  have n1: "getNextTranscoderInPool cyclic_bm (example_addr 1) = Inr (example_addr 2)" by code_simp
  have n2: "getNextTranscoderInPool cyclic_bm (example_addr 2) = Inr (example_addr 1)" by code_simp
  have nn: "example_addr 1 \<noteq> NULL_ADDRESS \<and> example_addr 2 \<noteq> NULL_ADDRESS" by code_simp
  have h3: "\<forall>a\<in>{example_addr 1, example_addr 2}. \<exists>b\<in>{example_addr 1, example_addr 2}.
      getNextTranscoderInPool cyclic_bm a = Inr b \<and> b \<noteq> NULL_ADDRESS"
    using n1 n2 nn by auto
  show ?thesis using h1 n1 n2 nn get_transcoder_pool_cycle_diverges [OF h1 h2 h3] by blast
qed

text \<open>
  C5. Every list \<open>get_transcoder_pool\<close> returns is the chain that starts at the
  first address and ends at the sentinel, and it has no duplicates.
\<close>

theorem get_transcoder_pool_distinct:
  assumes "get_transcoder_pool bm = Some (Some ts, out)"
  shows "\<exists>x xs. ts = x # xs \<and> getFirstTranscoderInPool bm = Inr x \<and> chain_from bm x xs \<and>
     distinct ts \<and> out = []"
proof -
  from assms obtain x res where first: "getFirstTranscoderInPool bm = Inr x"
    and loop: "pool_loop bm x [x] = Some res" and res: "res = Inr ts" and out: "out = []"
    by (blast dest: get_transcoder_pool_Some_list)
  from loop obtain xs r where walk: "pool_walk bm x xs r" and "res = walk_result r ([x] @ xs)"
    by (blast dest: pool_loop_Some_walk)
  with res have "r = None" and ts: "ts = x # xs"
    by (auto simp: walk_result_def split: option.splits)
  with walk have "chain_from bm x xs" by (simp add: chain_from_walk)
  with first ts out show ?thesis by (blast dest: chain_from_distinct)
qed

lemma get_transcoder_pool_distinct_witness:
  "get_transcoder_pool two_pool_bm = Some (Some [example_addr 1, example_addr 2], []) \<and>
   distinct [example_addr 1, example_addr 2]"
proof -
  have h: "pool_holds two_pool_bm [example_addr 1, example_addr 2]" by code_simp
  then have r: "get_transcoder_pool two_pool_bm = Some (Some [example_addr 1, example_addr 2], [])"
    by (simp add: get_transcoder_pool_enumerates)
  show ?thesis using r get_transcoder_pool_distinct [OF r] by simp
qed

text \<open>
  C6. All or nothing: when any call of the walk fails (the first call, or the
  \<open>getNextTranscoderInPool\<close> call after the addresses \<open>xs\<close>), the result is
  \<open>None\<close> and the exception is printed; no partial list is returned.
\<close>

theorem get_transcoder_pool_fault:
  assumes "getFirstTranscoderInPool bm = Inl e \<or>
    (getFirstTranscoderInPool bm = Inr x \<and> pool_walk bm x xs (Some e))"
  shows "get_transcoder_pool bm = Some (None, [AnErrorOccurred e])"
  using assms
  by (auto simp: get_transcoder_pool_def walk_result_def dest: pool_loop_walk [where acc = "[x]"])

lemma get_transcoder_pool_fault_witness:
  "getFirstTranscoderInPool third_call_fails_bm = Inr (example_addr 1) \<and>
   pool_walk third_call_fails_bm (example_addr 1) [example_addr 2, example_addr 3]
     (Some (RemoteError ''timeout'')) \<and>
   get_transcoder_pool third_call_fails_bm = Some (None, [AnErrorOccurred (RemoteError ''timeout'')])"
proof -
  have h1: "getFirstTranscoderInPool third_call_fails_bm = Inr (example_addr 1)"
    by (simp add: third_call_fails_bm_def)
  have c: "getNextTranscoderInPool third_call_fails_bm (example_addr 2) = Inr (example_addr 3) \<and>
      example_addr 3 \<noteq> NULL_ADDRESS \<and>
      getNextTranscoderInPool third_call_fails_bm (example_addr 3) = Inl (RemoteError ''timeout'') \<and>
      getNextTranscoderInPool third_call_fails_bm (example_addr 1) = Inr (example_addr 2) \<and>
      example_addr 2 \<noteq> NULL_ADDRESS"
    by code_simp
  have h2: "pool_walk third_call_fails_bm (example_addr 1) [example_addr 2, example_addr 3]
      (Some (RemoteError ''timeout''))"
    using c by (blast intro: pool_walk.intros)
  show ?thesis using h1 h2 get_transcoder_pool_fault [of third_call_fails_bm] by blast
qed

text \<open>
  C7. The empty pool: \<open>getFirstTranscoderInPool\<close> returns the sentinel, which
  the code appends to the list before its first test, so the result is the
  one-element list holding the null address rather than the empty list.
\<close>

theorem get_transcoder_pool_empty_pool:
  assumes "pool_holds bm []" and "getNextTranscoderInPool bm NULL_ADDRESS = Inr NULL_ADDRESS"
  shows "get_transcoder_pool bm = Some (Some [NULL_ADDRESS], [])"
  using assms by (simp add: pool_holds_def get_transcoder_pool_def pool_loop.simps)

lemma get_transcoder_pool_empty_pool_witness:
  "pool_holds empty_pool_bm [] \<and>
   getNextTranscoderInPool empty_pool_bm NULL_ADDRESS = Inr NULL_ADDRESS \<and>
   get_transcoder_pool empty_pool_bm = Some (Some [NULL_ADDRESS], [])"
proof -
  have h1: "pool_holds empty_pool_bm []" by (simp add: pool_holds_def empty_pool_bm_def)
  have h2: "getNextTranscoderInPool empty_pool_bm NULL_ADDRESS = Inr NULL_ADDRESS"
    by (simp add: empty_pool_bm_def)
  show ?thesis using h1 h2 get_transcoder_pool_empty_pool [OF h1 h2] by blast
qed

section \<open>Faithfulness of the sentinel\<close>

text \<open>
  Line 22 computes the literal sentinel: checksumming \<open>'0x' + '0' * 40\<close>
  succeeds and gives \<open>NULL_ADDRESS\<close>, for every hash function.
\<close>

lemma null_address_checksum:
  "to_checksum_address keccak_nibble (''0x'' @ replicate 40 CHR ''0'') = Inr NULL_ADDRESS"
proof -
  have zero: "py_lower_char CHR ''0'' = CHR ''0'' \<and> py_upper_char CHR ''0'' = CHR ''0'' \<and>
      is_hex_char CHR ''0''"
    by code_simp
  then have "py_lower (replicate 40 CHR ''0'') = replicate 40 CHR ''0''"
    by (simp add: py_lower_def)
  moreover have "list_all is_hex_char (replicate 40 CHR ''0'')"
    using zero by (simp add: list_all_iff)
  moreover have "map (\<lambda>(i, c). if 7 < keccak_nibble (replicate 40 CHR ''0'') i then py_upper_char c else c)
      (enumerate 0 (replicate 40 CHR ''0'')) = replicate 40 CHR ''0''"
    using zero by (intro map_enumerate_fixed) simp
  ultimately show ?thesis
    by (simp add: to_checksum_address_def NULL_ADDRESS_def Let_def)
qed

end
