(* ===== verification/PyDict.thy ===== *)
theory PyDict
  imports Prelude
begin

text \<open>
  Python's \<open>dict\<close> as the scripts use it: an insertion-ordered association list
  without duplicate keys. \<open>d[k] = v\<close> on a new key appends the pair; on a key that
  is already present it replaces the value in place, keeping the key's position.
  \<open>d.items()\<close> is the list itself and \<open>len(d)\<close> its length.
\<close>

type_synonym ('k, 'v) pydict = "('k \<times> 'v) list"

fun dict_setitem :: "('k, 'v) pydict \<Rightarrow> 'k \<Rightarrow> 'v \<Rightarrow> ('k, 'v) pydict" where
  "dict_setitem [] k v = [(k, v)]"
| "dict_setitem ((k', v') # d) k v =
     (if k' = k then (k, v) # d else (k', v') # dict_setitem d k v)"

text \<open>The invariant every dict keeps: no key twice.\<close>

definition dict_wf :: "('k, 'v) pydict \<Rightarrow> bool" where
  "dict_wf d \<longleftrightarrow> distinct (map fst d)"

lemma map_of_dict_setitem [simp]: "map_of (dict_setitem d k v) = (map_of d)(k \<mapsto> v)"
  by (induction d) (auto simp: fun_eq_iff)

lemma keys_dict_setitem:
  "map fst (dict_setitem d k v) = (if k \<in> set (map fst d) then map fst d else map fst d @ [k])"
  by (induction d) (auto split: if_splits)

lemma set_keys_dict_setitem [simp]: "fst ` set (dict_setitem d k v) = insert k (fst ` set d)"
proof -
  have "set (map fst (dict_setitem d k v)) = insert k (set (map fst d))"
    by (auto simp: keys_dict_setitem)
  then show ?thesis by simp
qed

lemma dict_wf_setitem [simp]: "dict_wf d \<Longrightarrow> dict_wf (dict_setitem d k v)"
  by (simp add: dict_wf_def keys_dict_setitem)

lemma dict_setitem_new: "k \<notin> fst ` set d \<Longrightarrow> dict_setitem d k v = d @ [(k, v)]"
  by (induction d) auto

lemma set_dict_setitem_sub: "set (dict_setitem d k v) \<subseteq> insert (k, v) (set d)"
  by (induction d) (auto split: if_splits)

text \<open>Other keys keep their entries and their relative order.\<close>

lemma filter_dict_setitem:
  "filter (\<lambda>(a, _). a \<noteq> x) (dict_setitem d k v) =
   (if k = x then filter (\<lambda>(a, _). a \<noteq> x) d else dict_setitem (filter (\<lambda>(a, _). a \<noteq> x) d) k v)"
  by (induction d) auto

end
