(* ===== verification/Uris.thy ===== *)
theory Uris
  imports PyDict
begin

text \<open>
  The URI resolution loop of \<open>src/get_ai_orchs.py\<close>
  (\<open>get_ai_orchestrators_uris\<close>, lines 54--74). The AIServiceRegistry contract is
  seen through its one view call; the loop fills an insertion-ordered dict and prints
  one line per stored URI and one per failing call. Its abstract specification is
  \<open>resolved_entries\<close>: the input addresses whose lookup returned a non-empty URI,
  in input order.
\<close>

section \<open>The contract interface\<close>

record service_registry =
  getServiceURI :: "address \<Rightarrow> exc + uri"

section \<open>The loop\<close>

text \<open>
  The \<open>for\<close> loop of lines 65--73 with the dict and the printed lines as
  parameters. An exception of the call is caught per address (\<open>continue\<close>); an
  empty URI is skipped without a line.
\<close>

fun uris_loop ::
  "service_registry \<Rightarrow> address list \<Rightarrow> (address, uri) pydict \<Rightarrow> out_line list \<Rightarrow>
   (address, uri) pydict \<times> out_line list" where
  "uris_loop sr [] ai_orchestrators_uris out = (ai_orchestrators_uris, out)"
| "uris_loop sr (orchestrator # orchestrators) ai_orchestrators_uris out =
     (case getServiceURI sr orchestrator of
        Inl e \<Rightarrow> uris_loop sr orchestrators ai_orchestrators_uris (out @ [AnErrorOccurred e])
      | Inr ai_orchestrator_uri \<Rightarrow>
          if py_truthy_str ai_orchestrator_uri
          then uris_loop sr orchestrators
                 (dict_setitem ai_orchestrators_uris orchestrator ai_orchestrator_uri)
                 (out @ [OrchestratorURI orchestrator ai_orchestrator_uri])
          else uris_loop sr orchestrators ai_orchestrators_uris out)"

definition get_ai_orchestrators_uris ::
  "service_registry \<Rightarrow> address list \<Rightarrow> (address, uri) pydict \<times> out_line list" where
  "get_ai_orchestrators_uris sr orchestrators = uris_loop sr orchestrators [] []"

section \<open>Abstract specification\<close>

text \<open>The URI one address resolves to, if the call succeeds with a non-empty string.\<close>

definition resolved :: "service_registry \<Rightarrow> address \<Rightarrow> uri option" where
  "resolved sr a = (case getServiceURI sr a of Inl e \<Rightarrow> None | Inr u \<Rightarrow> if u = [] then None else Some u)"

definition resolved_entries :: "service_registry \<Rightarrow> address list \<Rightarrow> (address \<times> uri) list" where
  "resolved_entries sr os = List.map_filter (\<lambda>a. map_option (Pair a) (resolved sr a)) os"

text \<open>The lines the loop prints for one address.\<close>

definition uri_log :: "service_registry \<Rightarrow> address \<Rightarrow> out_line list" where
  "uri_log sr a =
     (case getServiceURI sr a of
        Inl e \<Rightarrow> [AnErrorOccurred e]
      | Inr u \<Rightarrow> if u = [] then [] else [OrchestratorURI a u])"

text \<open>A registry that agrees with \<open>sr\<close> except that the call for \<open>x\<close> raises \<open>e\<close>.\<close>

definition fail_at :: "service_registry \<Rightarrow> address \<Rightarrow> exc \<Rightarrow> service_registry" where
  "fail_at sr x e = sr\<lparr>getServiceURI := (getServiceURI sr)(x := Inl e)\<rparr>"

section \<open>Example registry\<close>

definition example_registry :: service_registry where
  "example_registry = \<lparr>getServiceURI = (\<lambda>a.
     if a = ''0xa'' then Inr ''https://a.example:8935''
     else if a = ''0xb'' then Inr ''''
     else if a = ''0xc'' then Inl (RemoteError ''execution reverted'')
     else Inr ''https://d.example:8935'')\<rparr>"

section \<open>Lemmas on the loop\<close>

lemma uris_loop_log:
  "snd (uris_loop sr os d out) = out @ concat (map (uri_log sr) os)"
  by (induction sr os d out rule: uris_loop.induct) (auto simp: uri_log_def split: sum.splits)

lemma uris_loop_wf: "dict_wf d \<Longrightarrow> dict_wf (fst (uris_loop sr os d out))"
  by (induction sr os d out rule: uris_loop.induct) (auto split: sum.splits)

lemma uris_loop_entries:
  "set (fst (uris_loop sr os d out)) \<subseteq>
   set d \<union> {(a, u). a \<in> set os \<and> getServiceURI sr a = Inr u \<and> u \<noteq> []}"
proof (induction sr os d out rule: uris_loop.induct)
  case (1 sr d out)
  then show ?case by simp
next
  case (2 sr a os d out)
  let ?R = "\<lambda>os. {(a, u). a \<in> set os \<and> getServiceURI sr a = Inr u \<and> u \<noteq> []}"
  show ?case
  proof (cases "getServiceURI sr a")
    case (Inl e)
    with "2.IH"(1) show ?thesis by auto
  next
    case (Inr u)
    show ?thesis
    proof (cases "u = []")
      case True
      with Inr "2.IH"(3) show ?thesis by auto
    next
      case False
      with Inr "2.IH"(2) have "set (fst (uris_loop sr os (dict_setitem d a u)
          (out @ [OrchestratorURI a u]))) \<subseteq> set (dict_setitem d a u) \<union> ?R os"
        by simp
      moreover have "set (dict_setitem d a u) \<subseteq> set d \<union> ?R (a # os)"
        using set_dict_setitem_sub [of d a u] Inr False by auto
      ultimately show ?thesis using Inr False by auto
    qed
  qed
qed

lemma uris_loop_resolved:
  "distinct os \<Longrightarrow> set os \<inter> fst ` set d = {} \<Longrightarrow>
   fst (uris_loop sr os d out) = d @ resolved_entries sr os"
proof (induction sr os d out rule: uris_loop.induct)
  case (1 sr d out)
  then show ?case by (simp add: resolved_entries_def map_filter_simps)
next
  case (2 sr a os d out)
  then have new: "a \<notin> fst ` set d" by auto
  show ?case
    using 2 dict_setitem_new [OF new]
    by (auto simp: resolved_entries_def resolved_def map_filter_simps split: sum.splits)
qed

lemma resolved_entries_set:
  "(a, v) \<in> set (resolved_entries sr os) \<Longrightarrow> a \<in> set os \<and> getServiceURI sr a = Inr v"
  by (induction os)
    (auto simp: resolved_entries_def resolved_def map_filter_simps split: sum.splits if_splits)

lemma uris_loop_fail_at:
  "fst (uris_loop (fail_at sr x e) os (filter (\<lambda>(a, _). a \<noteq> x) d) out') =
   filter (\<lambda>(a, _). a \<noteq> x) (fst (uris_loop sr os d out))"
proof (induction sr os d out arbitrary: out' rule: uris_loop.induct)
  case (1 sr d out)
  then show ?case by simp
next
  case (2 sr a os d out)
  then show ?case
    by (cases "a = x") (auto simp: fail_at_def filter_dict_setitem split: sum.splits)
qed

section \<open>Properties of get\_ai\_orchestrators\_uris\<close>

text \<open>
  C8. Refinement: on a list of distinct addresses the dict
  \<open>get_ai_orchestrators_uris\<close> builds is exactly the abstract
  \<open>resolved_entries\<close>: the addresses whose lookup returned a non-empty URI, each with
  that URI, in input order.
\<close>

theorem get_ai_orchestrators_uris_refines:
  assumes "distinct orchestrators"
  shows "fst (get_ai_orchestrators_uris sr orchestrators) = resolved_entries sr orchestrators"
  using uris_loop_resolved [OF assms, of "[]" sr "[]"] by (simp add: get_ai_orchestrators_uris_def)

lemma get_ai_orchestrators_uris_refines_witness:
  "distinct [''0xa'', ''0xb'', ''0xc'', ''0xd''] \<and>
   fst (get_ai_orchestrators_uris example_registry [''0xa'', ''0xb'', ''0xc'', ''0xd'']) =
     [(''0xa'', ''https://a.example:8935''), (''0xd'', ''https://d.example:8935'')]"
proof -
  have h: "distinct [''0xa'', ''0xb'', ''0xc'', ''0xd'']" by simp
  have r: "resolved_entries example_registry [''0xa'', ''0xb'', ''0xc'', ''0xd''] =
     [(''0xa'', ''https://a.example:8935''), (''0xd'', ''https://d.example:8935'')]"
    by code_simp
  show ?thesis using h r get_ai_orchestrators_uris_refines [OF h, of example_registry] by simp
qed

text \<open>
  C9. Whatever the input (duplicates included), the dict has no key twice, and every
  entry is an input address with the non-empty URI its lookup returned: no address
  with an empty or failed resolution is ever stored.
\<close>

theorem get_ai_orchestrators_uris_entries:
  "dict_wf (fst (get_ai_orchestrators_uris sr orchestrators)) \<and>
   set (fst (get_ai_orchestrators_uris sr orchestrators)) \<subseteq>
     {(a, u). a \<in> set orchestrators \<and> getServiceURI sr a = Inr u \<and> u \<noteq> []}"
  using uris_loop_wf [of "[]" sr orchestrators "[]"] uris_loop_entries [of sr orchestrators "[]" "[]"]
  by (simp add: get_ai_orchestrators_uris_def dict_wf_def)

text \<open>
  C10. Failure isolation: making the lookup of one address \<open>x\<close> raise removes
  exactly \<open>x\<close>'s entry and leaves every other entry, and their order, unchanged.
\<close>

theorem get_ai_orchestrators_uris_fault_isolated:
  "fst (get_ai_orchestrators_uris (fail_at sr x e) orchestrators) =
   filter (\<lambda>(a, _). a \<noteq> x) (fst (get_ai_orchestrators_uris sr orchestrators))"
  using uris_loop_fail_at [of sr x e orchestrators "[]" "[]" "[]"]
  by (simp add: get_ai_orchestrators_uris_def)

text \<open>
  C11. Diagnostics: the loop prints, in input order, one \<open>Orchestrator: ..., AI
  Orchestrator URI: ...\<close> line per stored URI and one \<open>An error occurred\<close> line
  per failing lookup, and nothing for an empty URI.
\<close>

theorem get_ai_orchestrators_uris_log:
  "snd (get_ai_orchestrators_uris sr orchestrators) = concat (map (uri_log sr) orchestrators)"
  using uris_loop_log [of sr orchestrators "[]" "[]"] by (simp add: get_ai_orchestrators_uris_def)

end
