(* ===== verification/PyJson.thy ===== *)
theory PyJson
  imports Prelude
begin

text \<open>
  The parts of Python's \<open>json\<close> module and of subscripting that the module level of
  \<open>src/get_ai_orchs.py\<close> uses (lines 16 and 20): decoded JSON values, \<open>v[key]\<close>
  with a string key, and \<open>json.loads\<close> applied to a decoded value. The text
  parser itself is a parameter (\<open>json_parser\<close>): it returns the decoded value or
  raises (\<open>json.JSONDecodeError\<close> is a \<open>ValueError\<close>).
\<close>

datatype json =
    JObject "(string \<times> json) list"
  | JArray "json list"
  | JString string
  | JNumber int
  | JBool bool
  | JNull

type_synonym json_parser = "string \<Rightarrow> exc + json"

text \<open>The Python type a decoded value has, as named in error messages.\<close>

fun json_type_name :: "json \<Rightarrow> string" where
  "json_type_name (JObject _) = ''dict''"
| "json_type_name (JArray _) = ''list''"
| "json_type_name (JString _) = ''str''"
| "json_type_name (JNumber _) = ''int''"
| "json_type_name (JBool _) = ''bool''"
| "json_type_name JNull = ''NoneType''"

text \<open>A type name quoted as Python's messages quote it: \<open>'dict'\<close>.\<close>

definition py_repr_str :: "string \<Rightarrow> string" where
  "py_repr_str s = CHR 0x27 # s @ [CHR 0x27]"

text \<open>
  \<open>v[key]\<close> for a string \<open>key\<close>: a decoded object is a \<open>dict\<close> in which a repeated
  key keeps its last value; a missing key raises \<open>KeyError\<close>; lists and strings
  reject a string index and the scalars are not subscriptable (\<open>TypeError\<close>).
\<close>

definition json_getitem :: "json \<Rightarrow> string \<Rightarrow> exc + json" where
  "json_getitem v key =
     (case v of
        JObject kvs \<Rightarrow> (case map_of (rev kvs) key of None \<Rightarrow> Inl (KeyError key) | Some x \<Rightarrow> Inr x)
      | JArray _ \<Rightarrow> Inl (TypeError ''list indices must be integers or slices, not str'')
      | JString _ \<Rightarrow> Inl (TypeError (''string indices must be integers, not '' @ py_repr_str ''str''))
      | _ \<Rightarrow> Inl (TypeError (py_repr_str (json_type_name v) @ '' object is not subscriptable'')))"

text \<open>\<open>json.loads(v)\<close> on a decoded value: only a string is accepted.\<close>

definition json_loads :: "json_parser \<Rightarrow> json \<Rightarrow> exc + json" where
  "json_loads parse v =
     (case v of
        JString s \<Rightarrow> parse s
      | _ \<Rightarrow> Inl (TypeError (''the JSON object must be str, bytes or bytearray, not '' @ json_type_name v)))"

text \<open>\<open>json.load(f)["result"]\<close> on the text of the file \<open>f\<close> (line 16).\<close>

definition load_result :: "json_parser \<Rightarrow> string \<Rightarrow> exc + json" where
  "load_result parse text =
     (case parse text of Inl e \<Rightarrow> Inl e | Inr v \<Rightarrow> json_getitem v ''result'')"

section \<open>Lemmas\<close>

lemma json_getitem_Inr:
  "json_getitem v key = Inr x \<longleftrightarrow> (\<exists>kvs. v = JObject kvs \<and> map_of (rev kvs) key = Some x)"
  by (auto simp: json_getitem_def split: json.splits option.splits)

lemma json_getitem_missing:
  assumes "key \<notin> fst ` set kvs"
  shows "json_getitem (JObject kvs) key = Inl (KeyError key)"
proof -
  from assms have "map_of (rev kvs) key = None" by (simp add: map_of_eq_None_iff)
  then show ?thesis by (simp add: json_getitem_def)
qed

lemma json_loads_not_string:
  "(\<forall>s. v \<noteq> JString s) \<Longrightarrow>
   json_loads parse v = Inl (TypeError (''the JSON object must be str, bytes or bytearray, not '' @ json_type_name v))"
  by (cases v) (simp_all add: json_loads_def)

end
