(* ===== verification/OrchsMain.thy ===== *)
theory OrchsMain
  imports Pool Uris PyJson
begin

text \<open>
  The module level and the \<open>__main__\<close> block of \<open>src/get_ai_orchs.py\<close>: the
  \<open>INFURA_API_KEY\<close> check and the setup of lines 9--25, then the pipeline of lines
  77--105 (pool walk, first output file, URI resolution, second output file, count).
  The process state is explicit: environment, files, directories and what was
  printed. The JSON parser behind \<open>json.load\<close> is the parameter \<open>parse\<close>. In
  \<open>run_get_ai_orchs\<close> the contracts the script builds from \<open>RCP_URI\<close> and the
  ABIs are the parameters \<open>bm\<close> and \<open>sr\<close>, the chain seen through that endpoint;
  theory \<open>Contracts\<close> builds them as lines 79--87 do.
\<close>

section \<open>Process state\<close>

record proc_state =
  environ :: "string \<Rightarrow> string option"
  files :: "string \<Rightarrow> string option"
  dirs :: "string set"
  stdout :: "out_line list"

definition print_lines :: "out_line list \<Rightarrow> proc_state \<Rightarrow> proc_state" where
  "print_lines ls st = st\<lparr>stdout := stdout st @ ls\<rparr>"

text \<open>
  \<open>open(path, "w")\<close>: fails when the directory is missing, otherwise creates or
  truncates the file.
\<close>

definition open_w :: "string \<Rightarrow> string \<Rightarrow> proc_state \<Rightarrow> exc + proc_state" where
  "open_w dir path st =
     (if dir \<in> dirs st then Inr (st\<lparr>files := (files st)(path \<mapsto> [])\<rparr>)
      else Inl (FileNotFoundError path))"

definition write_str :: "string \<Rightarrow> string \<Rightarrow> proc_state \<Rightarrow> proc_state" where
  "write_str path s st =
     st\<lparr>files := (files st)(path \<mapsto> (case files st path of Some c \<Rightarrow> c | None \<Rightarrow> []) @ s)\<rparr>"

section \<open>Module level\<close>

definition OUTPUT_DIR :: string where
  "OUTPUT_DIR = ''output''"

definition BONDING_MANAGER_ABI_PATH :: string where
  "BONDING_MANAGER_ABI_PATH = ''abis/BondingManager.json''"

definition AI_SERVICE_REGISTRY_ABI_PATH :: string where
  "AI_SERVICE_REGISTRY_ABI_PATH = ''abis/AIServiceRegistry.json''"

text \<open>\<open>os.path.join\<close> of a directory without trailing slash and a relative name.\<close>

definition path_join :: "string \<Rightarrow> string \<Rightarrow> string" where
  "path_join d f = d @ ''/'' @ f"

definition MAIN_ORCHESTRATORS_PATH :: string where
  "MAIN_ORCHESTRATORS_PATH = path_join OUTPUT_DIR ''main_orchestrators.txt''"

definition AI_ORCHESTRATORS_PATH :: string where
  "AI_ORCHESTRATORS_PATH = path_join OUTPUT_DIR ''ai_orchestrators.txt''"

text \<open>
  Lines 9--25: the key check (\<open>if not INFURA_API_KEY\<close> rejects a missing and an
  empty key alike), the endpoint URI, the two ABI files, opened (a missing file raises
  \<open>FileNotFoundError\<close>) and decoded as the code does: \<open>json.load(f)["result"]\<close>
  for the BondingManager (line 16) and \<open>json.loads(json.load(f)["result"])\<close> for the
  AIServiceRegistry (line 20), each step of which may raise; then
  \<open>os.makedirs(OUTPUT_DIR, exist_ok=True)\<close>. Line 22 cannot raise (lemma
  \<open>null_address_checksum\<close>). The result is \<open>RCP_URI\<close>, the two ABIs and the new
  state.
\<close>

definition module_init ::
  "json_parser \<Rightarrow> proc_state \<Rightarrow> exc + (string \<times> json \<times> json \<times> proc_state)" where
  "module_init parse st =
     (case environ st ''INFURA_API_KEY'' of
        None \<Rightarrow> Inl (ValueError ''Please set the INFURA_API_KEY environment variable'')
      | Some key \<Rightarrow>
          if \<not> py_truthy_str key
          then Inl (ValueError ''Please set the INFURA_API_KEY environment variable'')
          else
            (case files st BONDING_MANAGER_ABI_PATH of
               None \<Rightarrow> Inl (FileNotFoundError BONDING_MANAGER_ABI_PATH)
             | Some bm_text \<Rightarrow>
                 (case load_result parse bm_text of
                    Inl e \<Rightarrow> Inl e
                  | Inr bm_abi \<Rightarrow>
                      (case files st AI_SERVICE_REGISTRY_ABI_PATH of
                         None \<Rightarrow> Inl (FileNotFoundError AI_SERVICE_REGISTRY_ABI_PATH)
                       | Some sr_text \<Rightarrow>
                           (case load_result parse sr_text of
                              Inl e \<Rightarrow> Inl e
                            | Inr sr_result \<Rightarrow>
                                (case json_loads parse sr_result of
                                   Inl e \<Rightarrow> Inl e
                                 | Inr sr_abi \<Rightarrow>
                                     Inr (''https://arbitrum-mainnet.infura.io/v3/'' @ key, bm_abi, sr_abi,
                                          st\<lparr>dirs := insert OUTPUT_DIR (dirs st)\<rparr>)))))))"

section \<open>The output files\<close>

text \<open>Lines 94--95 and 102--103: one line per address, one line per dict item.\<close>

definition render_orchestrators :: "address list \<Rightarrow> string" where
  "render_orchestrators os = concat (map (\<lambda>a. a @ ''\<newline>'') os)"

definition render_ai_orchestrators :: "(address, uri) pydict \<Rightarrow> string" where
  "render_ai_orchestrators d = concat (map (\<lambda>(a, u). a @ '' '' @ u @ ''\<newline>'') d)"

section \<open>The main block\<close>

text \<open>
  Lines 89--105. The result is \<open>None\<close> when the pool walk never returns; otherwise
  the exception that ended the script, if any, and the final state. Iterating over
  the \<open>None\<close> that \<open>get_transcoder_pool\<close> returns on a fault raises
  \<open>TypeError\<close> inside the \<open>with\<close> block, after the file was opened.
\<close>

definition main ::
  "bonding_manager \<Rightarrow> service_registry \<Rightarrow> proc_state \<Rightarrow> (exc option \<times> proc_state) option" where
  "main bm sr st0 =
     (let st1 = print_lines [Text ''Fetching mainnet Orchestrators...''] st0 in
      case get_transcoder_pool bm of
        None \<Rightarrow> None
      | Some (orchestrators, pool_out) \<Rightarrow>
          let st2 = print_lines (pool_out @
                [Text (''Store the mainnet Orchestrators in '' @ MAIN_ORCHESTRATORS_PATH)]) st1 in
          (case open_w OUTPUT_DIR MAIN_ORCHESTRATORS_PATH st2 of
             Inl e \<Rightarrow> Some (Some e, st2)
           | Inr st3 \<Rightarrow>
               (case orchestrators of
                  None \<Rightarrow> Some (Some (TypeError ''NoneType object is not iterable''), st3)
                | Some os \<Rightarrow>
                    let st4 = write_str MAIN_ORCHESTRATORS_PATH (render_orchestrators os) st3;
                        st5 = print_lines [Text ''Fetching AI Orchestrators...''] st4;
                        (ai_orchestrators_uris, uri_out) = get_ai_orchestrators_uris sr os;
                        st6 = print_lines (uri_out @
                          [Text (''Store the AI Orchestrators in '' @ AI_ORCHESTRATORS_PATH)]) st5
                    in (case open_w OUTPUT_DIR AI_ORCHESTRATORS_PATH st6 of
                          Inl e \<Rightarrow> Some (Some e, st6)
                        | Inr st7 \<Rightarrow>
                            let st8 = write_str AI_ORCHESTRATORS_PATH
                                        (render_ai_orchestrators ai_orchestrators_uris) st7
                            in Some (None, print_lines
                                  [TotalAIOrchestrators (length ai_orchestrators_uris)] st8)))))"

text \<open>The script run as \<open>python get_ai_orchs.py\<close>: module level, then main.\<close>

definition run_get_ai_orchs ::
  "json_parser \<Rightarrow> bonding_manager \<Rightarrow> service_registry \<Rightarrow> proc_state \<Rightarrow>
   (exc option \<times> proc_state) option" where
  "run_get_ai_orchs parse bm sr st =
     (case module_init parse st of
        Inl e \<Rightarrow> Some (Some e, st)
      | Inr (rcp_uri, bm_abi, sr_abi, st') \<Rightarrow> main bm sr st')"

section \<open>Reading the files back\<close>

text \<open>
  A reader of the output files: split at newlines (every line ends with one), and
  split an AI line at its first space.
\<close>

fun split_lines_acc :: "string \<Rightarrow> string \<Rightarrow> string list" where
  "split_lines_acc cur [] = (if cur = [] then [] else [cur])"
| "split_lines_acc cur (c # cs) =
     (if c = CHR ''\<newline>'' then cur # split_lines_acc [] cs else split_lines_acc (cur @ [c]) cs)"

definition split_lines :: "string \<Rightarrow> string list" where
  "split_lines s = split_lines_acc [] s"

definition parse_ai_line :: "string \<Rightarrow> address \<times> uri" where
  "parse_ai_line l = (takeWhile (\<lambda>c. c \<noteq> CHR '' '') l, drop 1 (dropWhile (\<lambda>c. c \<noteq> CHR '' '') l))"

definition parse_ai_orchestrators :: "string \<Rightarrow> (address, uri) pydict" where
  "parse_ai_orchestrators s = map parse_ai_line (split_lines s)"

section \<open>Example process\<close>

text \<open>
  ABI files in the shape the code expects (a JSON object whose \<open>"result"\<close> is the ABI,
  itself JSON text for the AIServiceRegistry), a parser that decodes these texts, and
  a process with the key set and both files present.
\<close>

definition example_bm_abi_text :: string where
  \<open>example_bm_abi_text = ''{"result": []}''\<close>

definition example_sr_abi_text :: string where
  \<open>example_sr_abi_text = ''{"result": "[]"}''\<close>

definition example_json_parse :: json_parser where
  "example_json_parse s =
     (if s = example_bm_abi_text then Inr (JObject [(''result'', JArray [])])
      else if s = example_sr_abi_text then Inr (JObject [(''result'', JString ''[]'')])
      else if s = ''[]'' then Inr (JArray [])
      else if s = ''{}'' then Inr (JObject [])
      else Inl (ValueError ''Expecting value''))"

definition example_proc_state :: proc_state where
  "example_proc_state = \<lparr>environ = [''INFURA_API_KEY'' \<mapsto> ''key''],
     files = [BONDING_MANAGER_ABI_PATH \<mapsto> example_bm_abi_text,
              AI_SERVICE_REGISTRY_ABI_PATH \<mapsto> example_sr_abi_text],
     dirs = {}, stdout = []\<rparr>"

section \<open>Lemmas\<close>

lemma OUTPUT_paths_differ: "MAIN_ORCHESTRATORS_PATH \<noteq> AI_ORCHESTRATORS_PATH"
  by (simp add: MAIN_ORCHESTRATORS_PATH_def AI_ORCHESTRATORS_PATH_def path_join_def)

lemma open_w_dir [simp]: "dir \<in> dirs st \<Longrightarrow> open_w dir path st = Inr (st\<lparr>files := (files st)(path \<mapsto> [])\<rparr>)"
  by (simp add: open_w_def)

lemma main_success:
  assumes "get_transcoder_pool bm = Some (Some os, pool_out)" and "OUTPUT_DIR \<in> dirs st"
    and "get_ai_orchestrators_uris sr os = (d, uri_out)"
  shows "main bm sr st = Some (None, st\<lparr>
      files := (files st)(MAIN_ORCHESTRATORS_PATH \<mapsto> render_orchestrators os,
                          AI_ORCHESTRATORS_PATH \<mapsto> render_ai_orchestrators d),
      stdout := stdout st @ [Text ''Fetching mainnet Orchestrators...''] @ pool_out @
        [Text (''Store the mainnet Orchestrators in '' @ MAIN_ORCHESTRATORS_PATH),
         Text ''Fetching AI Orchestrators...''] @ uri_out @
        [Text (''Store the AI Orchestrators in '' @ AI_ORCHESTRATORS_PATH),
         TotalAIOrchestrators (length d)]\<rparr>)"
  using assms OUTPUT_paths_differ
  by (simp add: main_def print_lines_def write_str_def)

lemma main_pool_fault_state:
  assumes "get_transcoder_pool bm = Some (None, pool_out)" and "OUTPUT_DIR \<in> dirs st"
  shows "main bm sr st = Some (Some (TypeError ''NoneType object is not iterable''), st\<lparr>
      files := (files st)(MAIN_ORCHESTRATORS_PATH \<mapsto> []),
      stdout := stdout st @ [Text ''Fetching mainnet Orchestrators...''] @ pool_out @
        [Text (''Store the mainnet Orchestrators in '' @ MAIN_ORCHESTRATORS_PATH)]\<rparr>)"
  using assms by (simp add: main_def print_lines_def)

lemma module_init_dirs:
  "module_init parse st = Inr (u, a1, a2, st') \<Longrightarrow>
   OUTPUT_DIR \<in> dirs st' \<and> files st' = files st \<and> stdout st' = stdout st"
  by (auto simp: module_init_def split: option.splits if_splits sum.splits)

lemma module_init_example:
  "module_init example_json_parse example_proc_state =
     Inr (''https://arbitrum-mainnet.infura.io/v3/key'', JArray [], JArray [],
          example_proc_state\<lparr>dirs := {OUTPUT_DIR}\<rparr>)"
  by (simp add: module_init_def example_proc_state_def example_json_parse_def load_result_def
      json_getitem_def json_loads_def example_bm_abi_text_def example_sr_abi_text_def
      BONDING_MANAGER_ABI_PATH_def AI_SERVICE_REGISTRY_ABI_PATH_def)

lemma split_lines_acc_line:
  "CHR ''\<newline>'' \<notin> set a \<Longrightarrow>
   split_lines_acc cur (a @ CHR ''\<newline>'' # rest) = (cur @ a) # split_lines_acc [] rest"
  by (induction a arbitrary: cur) auto

lemma split_lines_render:
  "\<forall>a\<in>set xs. CHR ''\<newline>'' \<notin> set a \<Longrightarrow> split_lines (render_orchestrators xs) = xs"
proof (induction xs)
  case Nil
  then show ?case by (simp add: split_lines_def render_orchestrators_def)
next
  case (Cons a xs)
  then show ?case
    by (simp add: split_lines_def render_orchestrators_def split_lines_acc_line)
qed

lemma parse_ai_line_render:
  "CHR '' '' \<notin> set a \<Longrightarrow> parse_ai_line (a @ CHR '' '' # u) = (a, u)"
  unfolding parse_ai_line_def by (induction a) auto

lemma render_ai_as_lines:
  "render_ai_orchestrators d = render_orchestrators (map (\<lambda>(a, u). a @ CHR '' '' # u) d)"
  by (induction d) (auto simp: render_ai_orchestrators_def render_orchestrators_def)

lemma parse_render_ai:
  assumes "\<forall>(a, u)\<in>set d. CHR '' '' \<notin> set a \<and> CHR ''\<newline>'' \<notin> set a \<and> CHR ''\<newline>'' \<notin> set u"
  shows "parse_ai_orchestrators (render_ai_orchestrators d) = d"
proof -
  let ?ls = "map (\<lambda>(a, u). a @ CHR '' '' # u) d"
  from assms have "\<forall>l\<in>set ?ls. CHR ''\<newline>'' \<notin> set l" by auto
  then have "split_lines (render_ai_orchestrators d) = ?ls"
    by (simp add: render_ai_as_lines split_lines_render)
  moreover from assms have "map parse_ai_line ?ls = d"
    by (induction d) (auto simp: parse_ai_line_render)
  ultimately show ?thesis by (simp add: parse_ai_orchestrators_def)
qed

section \<open>Properties of the script\<close>

text \<open>
  C12. When the pool walk fails, \<open>get_transcoder_pool\<close> returns \<open>None\<close> and the
  main block does not check it: \<open>main_orchestrators.txt\<close> is opened for writing
  (truncated to empty), iterating over \<open>None\<close> raises \<open>TypeError\<close>, and
  \<open>ai_orchestrators.txt\<close> keeps whatever an earlier run left there.
\<close>

theorem main_pool_fault:
  assumes "get_transcoder_pool bm = Some (None, pool_out)" and "OUTPUT_DIR \<in> dirs st"
  shows "\<exists>st'. main bm sr st = Some (Some (TypeError ''NoneType object is not iterable''), st') \<and>
    files st' MAIN_ORCHESTRATORS_PATH = Some [] \<and>
    files st' AI_ORCHESTRATORS_PATH = files st AI_ORCHESTRATORS_PATH"
  using main_pool_fault_state [OF assms, of sr] OUTPUT_paths_differ by simp

lemma main_pool_fault_witness:
  "get_transcoder_pool third_call_fails_bm = Some (None, [AnErrorOccurred (RemoteError ''timeout'')]) \<and>
   OUTPUT_DIR \<in> dirs \<lparr>environ = Map.empty, files = [AI_ORCHESTRATORS_PATH \<mapsto> ''old''],
     dirs = {OUTPUT_DIR}, stdout = []\<rparr> \<and>
   (\<exists>st'. main third_call_fails_bm \<lparr>getServiceURI = (\<lambda>_. Inr [])\<rparr>
        \<lparr>environ = Map.empty, files = [AI_ORCHESTRATORS_PATH \<mapsto> ''old''], dirs = {OUTPUT_DIR}, stdout = []\<rparr>
      = Some (Some (TypeError ''NoneType object is not iterable''), st') \<and>
    files st' MAIN_ORCHESTRATORS_PATH = Some [] \<and> files st' AI_ORCHESTRATORS_PATH = Some ''old'')"
proof -
  have h1: "get_transcoder_pool third_call_fails_bm = Some (None, [AnErrorOccurred (RemoteError ''timeout'')])"
    by code_simp
  have h2: "OUTPUT_DIR \<in> dirs \<lparr>environ = Map.empty, files = [AI_ORCHESTRATORS_PATH \<mapsto> ''old''],
     dirs = {OUTPUT_DIR}, stdout = []\<rparr>" by simp
  show ?thesis using h1 h2 main_pool_fault [OF h1 h2, of "\<lparr>getServiceURI = (\<lambda>_. Inr [])\<rparr>"] by simp
qed

text \<open>
  C13. A missing or empty \<open>INFURA_API_KEY\<close> stops the script at import with
  \<open>ValueError\<close>, before any directory is created, file written or line printed.
\<close>

theorem run_missing_api_key:
  assumes "environ st ''INFURA_API_KEY'' = None \<or> environ st ''INFURA_API_KEY'' = Some []"
  shows "run_get_ai_orchs parse bm sr st =
    Some (Some (ValueError ''Please set the INFURA_API_KEY environment variable''), st)"
  using assms by (auto simp: run_get_ai_orchs_def module_init_def)

lemma run_missing_api_key_witness:
  "environ \<lparr>environ = [''INFURA_API_KEY'' \<mapsto> []], files = Map.empty, dirs = {}, stdout = []\<rparr>
     ''INFURA_API_KEY'' = Some [] \<and>
   run_get_ai_orchs example_json_parse two_pool_bm example_registry
     \<lparr>environ = [''INFURA_API_KEY'' \<mapsto> []], files = Map.empty, dirs = {}, stdout = []\<rparr> =
   Some (Some (ValueError ''Please set the INFURA_API_KEY environment variable''),
     \<lparr>environ = [''INFURA_API_KEY'' \<mapsto> []], files = Map.empty, dirs = {}, stdout = []\<rparr>)"
  using run_missing_api_key [of "\<lparr>environ = [''INFURA_API_KEY'' \<mapsto> []], files = Map.empty, dirs = {}, stdout = []\<rparr>"
      example_json_parse two_pool_bm example_registry] by simp

text \<open>
  C14. An ABI file for the BondingManager that decodes to a JSON object without a
  \<open>"result"\<close> key stops the script at import with \<open>KeyError('result')\<close> (line 16),
  before the output directory is created or anything is printed.
\<close>

theorem run_bm_abi_without_result:
  assumes key: "environ st ''INFURA_API_KEY'' = Some k" and "k \<noteq> []"
    and bmfile: "files st BONDING_MANAGER_ABI_PATH = Some text"
    and dec: "parse text = Inr (JObject kvs)" and "''result'' \<notin> fst ` set kvs"
  shows "run_get_ai_orchs parse bm sr st = Some (Some (KeyError ''result''), st)"
proof -
  from assms(5) have "load_result parse text = Inl (KeyError ''result'')"
    by (simp add: load_result_def dec json_getitem_missing)
  with key assms(2) bmfile show ?thesis
    by (simp add: run_get_ai_orchs_def module_init_def)
qed

lemma run_bm_abi_without_result_witness:
  "run_get_ai_orchs example_json_parse two_pool_bm example_registry
     (example_proc_state\<lparr>files := (files example_proc_state)(BONDING_MANAGER_ABI_PATH \<mapsto> ''{}'')\<rparr>) =
   Some (Some (KeyError ''result''),
     example_proc_state\<lparr>files := (files example_proc_state)(BONDING_MANAGER_ABI_PATH \<mapsto> ''{}'')\<rparr>)"
proof -
  let ?st = "example_proc_state\<lparr>files := (files example_proc_state)(BONDING_MANAGER_ABI_PATH \<mapsto> ''{}'')\<rparr>"
  have h1: "environ ?st ''INFURA_API_KEY'' = Some ''key''" by (simp add: example_proc_state_def)
  have h2: "''key'' \<noteq> []" by simp
  have h3: "files ?st BONDING_MANAGER_ABI_PATH = Some ''{}''" by simp
  have h4: "example_json_parse ''{}'' = Inr (JObject [])" by code_simp
  have h5: "''result'' \<notin> fst ` set ([] :: (string \<times> json) list)" by simp
  from run_bm_abi_without_result [where parse = example_json_parse, OF h1 h2 h3 h4 h5] show ?thesis .
qed

text \<open>
  C15. Line 20 decodes the AIServiceRegistry ABI twice: when its \<open>"result"\<close> is
  already a decoded JSON value rather than JSON text (as in the BondingManager file's
  format), \<open>json.loads\<close> raises \<open>TypeError\<close> and the script stops at import,
  before the output directory is created or anything is printed.
\<close>

theorem run_sr_abi_result_not_text:
  assumes key: "environ st ''INFURA_API_KEY'' = Some k" and "k \<noteq> []"
    and bm: "files st BONDING_MANAGER_ABI_PATH = Some bm_text" and "load_result parse bm_text = Inr bm_abi"
    and sr: "files st AI_SERVICE_REGISTRY_ABI_PATH = Some sr_text"
    and res: "load_result parse sr_text = Inr v" and notstr: "\<forall>s. v \<noteq> JString s"
  shows "run_get_ai_orchs parse bm sr_c st =
    Some (Some (TypeError (''the JSON object must be str, bytes or bytearray, not '' @ json_type_name v)), st)"
  using assms by (simp add: run_get_ai_orchs_def module_init_def json_loads_not_string)

lemma run_sr_abi_result_not_text_witness:
  "run_get_ai_orchs example_json_parse two_pool_bm example_registry
     (example_proc_state\<lparr>files := (files example_proc_state)(AI_SERVICE_REGISTRY_ABI_PATH \<mapsto> example_bm_abi_text)\<rparr>) =
   Some (Some (TypeError ''the JSON object must be str, bytes or bytearray, not list''),
     example_proc_state\<lparr>files := (files example_proc_state)(AI_SERVICE_REGISTRY_ABI_PATH \<mapsto> example_bm_abi_text)\<rparr>)"
proof -
  let ?st = "example_proc_state\<lparr>files := (files example_proc_state)(AI_SERVICE_REGISTRY_ABI_PATH \<mapsto> example_bm_abi_text)\<rparr>"
  have h1: "environ ?st ''INFURA_API_KEY'' = Some ''key''" by (simp add: example_proc_state_def)
  have h2: "''key'' \<noteq> []" by simp
  have h3: "files ?st BONDING_MANAGER_ABI_PATH = Some example_bm_abi_text"
    by (simp add: example_proc_state_def BONDING_MANAGER_ABI_PATH_def AI_SERVICE_REGISTRY_ABI_PATH_def)
  have h4: "load_result example_json_parse example_bm_abi_text = Inr (JArray [])" by code_simp
  have h5: "files ?st AI_SERVICE_REGISTRY_ABI_PATH = Some example_bm_abi_text" by simp
  have h6: "\<forall>s. JArray [] \<noteq> JString s" by simp
  from run_sr_abi_result_not_text [where parse = example_json_parse, OF h1 h2 h3 h4 h5 h4 h6] show ?thesis by simp
qed

text \<open>
  C16. Round trip of \<open>main_orchestrators.txt\<close>: reading the file back line by line
  gives exactly the list written, for addresses without a newline.
\<close>

theorem render_orchestrators_roundtrip:
  assumes "\<forall>a\<in>set xs. CHR ''\<newline>'' \<notin> set a"
  shows "split_lines (render_orchestrators xs) = xs"
  using assms by (rule split_lines_render)

lemma render_orchestrators_roundtrip_witness:
  "split_lines (render_orchestrators [example_addr 1, example_addr 2]) = [example_addr 1, example_addr 2]"
proof -
  have h: "\<forall>a\<in>set [example_addr 1, example_addr 2]. CHR ''\<newline>'' \<notin> set a" by code_simp
  show ?thesis using render_orchestrators_roundtrip [OF h] .
qed

text \<open>
  C17. Round trip of \<open>ai_orchestrators.txt\<close>: splitting each line at its first
  space gives back the dict items, in order, when addresses hold no space or newline
  and URIs no newline.
\<close>

theorem render_ai_orchestrators_roundtrip:
  assumes "\<forall>(a, u)\<in>set d. CHR '' '' \<notin> set a \<and> CHR ''\<newline>'' \<notin> set a \<and> CHR ''\<newline>'' \<notin> set u"
  shows "parse_ai_orchestrators (render_ai_orchestrators d) = d"
  using assms by (rule parse_render_ai)

lemma render_ai_orchestrators_roundtrip_witness:
  "parse_ai_orchestrators (render_ai_orchestrators [(''0xa'', ''https://a.example:8935'')]) =
   [(''0xa'', ''https://a.example:8935'')]"
proof -
  have h: "\<forall>(a, u)\<in>set [(''0xa'', ''https://a.example:8935'')].
      CHR '' '' \<notin> set a \<and> CHR ''\<newline>'' \<notin> set a \<and> CHR ''\<newline>'' \<notin> set u" by code_simp
  show ?thesis using render_ai_orchestrators_roundtrip [OF h] .
qed

end
