(* ===== verification/Contracts.thy ===== *)
theory Contracts
  imports OrchsMain
begin

text \<open>
  The connection step of \<open>src/get_ai_orchs.py\<close>: the hard-coded contract addresses
  (lines 14 and 18) and the \<open>__main__\<close> block's creation of the two contract
  instances through \<open>Web3.to_checksum_address\<close> (lines 79--87). The provider
  \<open>Web3(Web3.HTTPProvider(RCP_URI))\<close> is a parameter that maps the RPC URI, a
  checksummed address and the ABI loaded at module level to the contract's view
  (\<open>w3.eth.contract(address=..., abi=...)\<close>). \<open>run_script\<close> is the whole script:
  module level, connection, and \<open>main\<close>. The last section states the
  properties of \<open>to_checksum_address\<close> (theory \<open>Checksum\<close>) at the script's
  three call sites.
\<close>

definition BONDING_MANAGER_ADDRESS :: address where
  "BONDING_MANAGER_ADDRESS = ''0x35Bcf3c30594191d53231E4FF333E8A770453e40''"

definition AI_SERVICE_REGISTRY_ADDRESS :: address where
  "AI_SERVICE_REGISTRY_ADDRESS = ''0x04C0b249740175999E5BF5c9ac1dA92431EF34C5''"

record web3_provider =
  bonding_manager_at :: "uri \<Rightarrow> address \<Rightarrow> json \<Rightarrow> bonding_manager"
  service_registry_at :: "uri \<Rightarrow> address \<Rightarrow> json \<Rightarrow> service_registry"

text \<open>
  Lines 79--87: each \<open>to_checksum_address\<close> call may raise, which would end the
  script before \<open>main\<close>'s first line.
\<close>

definition connect_contracts ::
  "(string \<Rightarrow> nat \<Rightarrow> nat) \<Rightarrow> web3_provider \<Rightarrow> uri \<Rightarrow> json \<Rightarrow> json \<Rightarrow>
   exc + bonding_manager \<times> service_registry" where
  "connect_contracts keccak_nibble w3 rcp_uri bm_abi sr_abi =
     (case to_checksum_address keccak_nibble BONDING_MANAGER_ADDRESS of
        Inl e \<Rightarrow> Inl e
      | Inr bm_addr \<Rightarrow>
          (case to_checksum_address keccak_nibble AI_SERVICE_REGISTRY_ADDRESS of
             Inl e \<Rightarrow> Inl e
           | Inr sr_addr \<Rightarrow>
               Inr (bonding_manager_at w3 rcp_uri bm_addr bm_abi,
                    service_registry_at w3 rcp_uri sr_addr sr_abi)))"

definition run_script ::
  "(string \<Rightarrow> nat \<Rightarrow> nat) \<Rightarrow> web3_provider \<Rightarrow> json_parser \<Rightarrow> proc_state \<Rightarrow>
   (exc option \<times> proc_state) option" where
  "run_script keccak_nibble w3 parse st =
     (case module_init parse st of
        Inl e \<Rightarrow> Some (Some e, st)
      | Inr (rcp_uri, bm_abi, sr_abi, st') \<Rightarrow>
          (case connect_contracts keccak_nibble w3 rcp_uri bm_abi sr_abi of
             Inl e \<Rightarrow> Some (Some e, st')
           | Inr (bm, sr) \<Rightarrow> main bm sr st'))"

text \<open>A provider for the examples: the same two example contracts at every address.\<close>

definition example_w3 :: web3_provider where
  "example_w3 = \<lparr>bonding_manager_at = (\<lambda>u a abi. two_pool_bm),
     service_registry_at = (\<lambda>u a abi. example_registry)\<rparr>"

section \<open>Lemmas\<close>

lemma contract_addresses_well_formed:
  "is_address BONDING_MANAGER_ADDRESS \<and> is_address AI_SERVICE_REGISTRY_ADDRESS"
  by code_simp

lemma contract_addresses_0x:
  "take 2 BONDING_MANAGER_ADDRESS = ''0x'' \<and> take 2 AI_SERVICE_REGISTRY_ADDRESS = ''0x''"
  by (simp add: BONDING_MANAGER_ADDRESS_def AI_SERVICE_REGISTRY_ADDRESS_def)

lemma connect_contracts_Inr:
  "\<exists>bm_addr sr_addr.
     connect_contracts h w3 u a1 a2 = Inr (bonding_manager_at w3 u bm_addr a1, service_registry_at w3 u sr_addr a2) \<and>
     to_checksum_address h BONDING_MANAGER_ADDRESS = Inr bm_addr \<and>
     to_checksum_address h AI_SERVICE_REGISTRY_ADDRESS = Inr sr_addr \<and>
     py_lower bm_addr = py_lower BONDING_MANAGER_ADDRESS \<and>
     py_lower sr_addr = py_lower AI_SERVICE_REGISTRY_ADDRESS"
proof -
  from contract_addresses_well_formed obtain bm_addr sr_addr where
    bm: "to_checksum_address h BONDING_MANAGER_ADDRESS = Inr bm_addr" and
    sr: "to_checksum_address h AI_SERVICE_REGISTRY_ADDRESS = Inr sr_addr"
    by (blast dest: is_address_checksum is_address_hex)
  moreover from bm sr contract_addresses_0x have
    "py_lower bm_addr = py_lower BONDING_MANAGER_ADDRESS \<and>
     py_lower sr_addr = py_lower AI_SERVICE_REGISTRY_ADDRESS"
    by (simp add: to_checksum_address_lower_0x)
  ultimately show ?thesis by (simp add: connect_contracts_def)
qed

text \<open>
  A provider that, like the Ethereum node, reads an address regardless of letter case.
\<close>

lemma connect_contracts_case_insensitive:
  assumes "\<forall>u a b abi. py_lower a = py_lower b \<longrightarrow>
      bonding_manager_at w3 u a abi = bonding_manager_at w3 u b abi \<and>
      service_registry_at w3 u a abi = service_registry_at w3 u b abi"
  shows "connect_contracts h w3 u a1 a2 =
    Inr (bonding_manager_at w3 u BONDING_MANAGER_ADDRESS a1,
         service_registry_at w3 u AI_SERVICE_REGISTRY_ADDRESS a2)"
proof -
  from connect_contracts_Inr [of h w3 u a1 a2] obtain bm_addr sr_addr where
    c: "connect_contracts h w3 u a1 a2 = Inr (bonding_manager_at w3 u bm_addr a1, service_registry_at w3 u sr_addr a2)"
    and bm: "to_checksum_address h BONDING_MANAGER_ADDRESS = Inr bm_addr"
    and "py_lower bm_addr = py_lower BONDING_MANAGER_ADDRESS"
    and "py_lower sr_addr = py_lower AI_SERVICE_REGISTRY_ADDRESS"
    by blast
  with assms show ?thesis by metis
qed

section \<open>Properties\<close>

text \<open>
  C29. The two \<open>to_checksum_address\<close> calls of lines 81 and 85 never raise, for any
  hash: the contracts are created at well-formed addresses that differ from the
  constants of lines 14 and 18 at most in letter case.
\<close>

theorem connect_contracts_total:
  "\<exists>bm_addr sr_addr.
     connect_contracts h w3 u a1 a2 = Inr (bonding_manager_at w3 u bm_addr a1, service_registry_at w3 u sr_addr a2) \<and>
     py_lower bm_addr = py_lower BONDING_MANAGER_ADDRESS \<and>
     py_lower sr_addr = py_lower AI_SERVICE_REGISTRY_ADDRESS \<and>
     is_address bm_addr \<and> is_address sr_addr"
  using connect_contracts_Inr [of h w3 u a1 a2] by (blast dest: to_checksum_address_is_address)

section \<open>Checksumming at its call sites\<close>

text \<open>
  C24. Checksumming changes only the case of letters: the result, lowered, is
  \<open>0x\<close> followed by the input's forty digits lowered (the input lowered, when it
  carries a prefix). In particular the addresses computed at lines 81 and 85 differ
  from the constants of lines 14 and 18 only in letter case.
\<close>

theorem to_checksum_address_case_only:
  assumes "to_checksum_address h v = Inr r"
  shows "py_lower r = ''0x'' @ py_lower (remove_0x_prefix v) \<and>
    (\<exists>bm_addr sr_addr.
       to_checksum_address h BONDING_MANAGER_ADDRESS = Inr bm_addr \<and>
       to_checksum_address h AI_SERVICE_REGISTRY_ADDRESS = Inr sr_addr \<and>
       py_lower bm_addr = py_lower BONDING_MANAGER_ADDRESS \<and>
       py_lower sr_addr = py_lower AI_SERVICE_REGISTRY_ADDRESS)"
  using to_checksum_address_lower [OF assms] connect_contracts_Inr [where h = h] by blast

lemma to_checksum_address_case_only_witness:
  "to_checksum_address (\<lambda>s i. i mod 16) ''35BCF3C30594191D53231E4FF333E8A770453E40'' =
     Inr ''0x35bcf3c30594191D53231e4fF333E8A770453e40'' \<and>
   py_lower ''0x35bcf3c30594191D53231e4fF333E8A770453e40'' =
     ''0x'' @ py_lower (remove_0x_prefix ''35BCF3C30594191D53231E4FF333E8A770453E40'')"
proof -
  have h: "to_checksum_address (\<lambda>s i. i mod 16) ''35BCF3C30594191D53231E4FF333E8A770453E40'' =
     Inr ''0x35bcf3c30594191D53231e4fF333E8A770453e40''" by code_simp
  show ?thesis using h to_checksum_address_case_only [OF h] by blast
qed

text \<open>
  C25. Checksumming is idempotent: an address the function produced is accepted again
  and left unchanged, whatever the hash. In particular the addresses the script hands
  to \<open>w3.eth.contract\<close> (lines 80--87) are checksum addresses, which is what the
  provider's address validation requires.
\<close>

theorem to_checksum_address_idempotent:
  assumes "to_checksum_address h v = Inr r"
  shows "to_checksum_address h r = Inr r \<and>
    (\<exists>bm_addr sr_addr.
       connect_contracts h w3 u a1 a2 =
         Inr (bonding_manager_at w3 u bm_addr a1, service_registry_at w3 u sr_addr a2) \<and>
       to_checksum_address h bm_addr = Inr bm_addr \<and>
       to_checksum_address h sr_addr = Inr sr_addr)"
  using to_checksum_address_fixed [OF assms] connect_contracts_Inr [of h w3 u a1 a2]
  by (blast dest: to_checksum_address_fixed)

lemma to_checksum_address_idempotent_witness:
  "to_checksum_address (\<lambda>s i. i mod 16) ''0x35bcf3c30594191D53231e4fF333E8A770453e40'' =
     Inr ''0x35bcf3c30594191D53231e4fF333E8A770453e40''"
proof -
  have h: "to_checksum_address (\<lambda>s i. i mod 16) ''0x35bcf3c30594191d53231e4ff333e8a770453e40'' =
     Inr ''0x35bcf3c30594191D53231e4fF333E8A770453e40''" by code_simp
  show ?thesis using to_checksum_address_idempotent [OF h] by blast
qed

text \<open>
  C28. Type of \<open>to_checksum_address\<close>: it raises \<open>ValueError\<close> with the input
  exactly on strings that are not forty hex digits with an optional \<open>0x\<close>/\<open>0X\<close>
  prefix, and otherwise returns a well-formed \<open>0x\<close>-prefixed address of 42
  characters, whatever the hash. None of the script's three calls raises: line 22
  gives \<open>NULL_ADDRESS\<close>, lines 81 and 85 give well-formed addresses.
\<close>

theorem to_checksum_address_type:
  "(case to_checksum_address h v of
      Inl e \<Rightarrow> e = ValueError v \<and> \<not> is_hex_address v
    | Inr r \<Rightarrow> is_hex_address v \<and> is_address r \<and> length r = 42) \<and>
   to_checksum_address h (''0x'' @ replicate 40 CHR ''0'') = Inr NULL_ADDRESS \<and>
   (\<exists>bm_addr. to_checksum_address h BONDING_MANAGER_ADDRESS = Inr bm_addr \<and> is_address bm_addr) \<and>
   (\<exists>sr_addr. to_checksum_address h AI_SERVICE_REGISTRY_ADDRESS = Inr sr_addr \<and> is_address sr_addr)"
  using to_checksum_address_cases [where h = h and v = v] null_address_checksum [where keccak_nibble = h] connect_contracts_Inr [where h = h]
  by (blast dest: to_checksum_address_is_address)

end
