(* ===== verification/Fees.thy ===== *)
theory Fees
  imports Prelude
begin

text \<open>
  The fee script \<open>src/get_ai_fees.py\<close>. \<open>py_format\<close> is Python's
  \<open>str.format\<close> with keyword fields, as line 21 applies it to the query template
  \<open>WINNING_TICKET_QUERY\<close> (lines 36--58); \<open>fetch_data_for_broadcaster\<close> (lines
  13--29) sends the formatted query through a subgraph client, a parameter returning
  the GraphQL result or the exception of the request; \<open>fees_loop\<close> is the loop of
  lines 61--70 and \<open>run_get_ai_fees\<close> the whole module. Python floats are an
  abstract type \<open>'f\<close> with its own \<open>0\<close> and \<open>+\<close> (no associativity assumed)
  and \<open>float()\<close> is a parameter that returns a value or raises.
\<close>

section \<open>str.format\<close>

text \<open>
  \<open>{{\<close> and \<open>}}\<close> are literal braces, \<open>{name}\<close> is replaced by the keyword
  argument \<open>name\<close> (\<open>KeyError\<close> when absent), \<open>{}\<close> asks for a positional
  argument (none is given: \<open>IndexError\<close>), a \<open>{\<close> inside a field name, an unclosed
  field and a lone \<open>}\<close> raise \<open>ValueError\<close>. Field names are plain names:
  attribute, index, conversion and format-spec syntax is not modelled (the template
  uses none). A substituted value is not scanned again.
\<close>

function py_format :: "string \<Rightarrow> (string \<times> string) list \<Rightarrow> exc + string" where
  "py_format [] kw = Inr []"
| "py_format (c # cs) kw =
     (if c = CHR ''{'' then
        (if cs \<noteq> [] \<and> hd cs = CHR ''{'' then map_sum id (Cons CHR ''{'') (py_format (tl cs) kw)
         else
           (let field = takeWhile (\<lambda>x. x \<noteq> CHR ''}'') cs;
                rest = dropWhile (\<lambda>x. x \<noteq> CHR ''}'') cs
            in if rest = [] then Inl (ValueError ''expected '}' before end of string'')
               else if CHR ''{'' \<in> set field then Inl (ValueError ''unexpected '{' in field name'')
               else if field = [] then Inl (IndexError ''Replacement index 0 out of range'')
               else (case map_of kw field of
                       None \<Rightarrow> Inl (KeyError field)
                     | Some v \<Rightarrow> map_sum id (append v) (py_format (tl rest) kw))))
      else if c = CHR ''}'' then
        (if cs \<noteq> [] \<and> hd cs = CHR ''}'' then map_sum id (Cons CHR ''}'') (py_format (tl cs) kw)
         else Inl (ValueError ''Single '}' encountered in format string''))
      else map_sum id (Cons c) (py_format cs kw))"
  by pat_completeness auto
termination
proof (relation "measure (\<lambda>(s, kw). length s)")
  show "wf (measure (\<lambda>(s, kw). length s))" by simp
qed (auto simp: less_Suc_eq_le le_diff_conv intro: le_SucI length_dropWhile_le)

text \<open>The escaping a template needs for a literal text: every brace doubled.\<close>

definition escape_braces :: "string \<Rightarrow> string" where
  "escape_braces s = concat (map (\<lambda>c. if c = CHR ''{'' \<or> c = CHR ''}'' then [c, c] else [c]) s)"

section \<open>The query\<close>

definition KNOWN_AI_BROADCASTERS :: "string list" where
  "KNOWN_AI_BROADCASTERS =
     [''0x012345dE92B630C065dFc0caBE4eB34f74f7FC85'',
      ''0x87d4396204035736422c2c6dfce423bba6daa776'',
      ''0x491F5F5664f11a1e0Ba6902A8cA37C09150bE0DB'']"

definition SUBGRAPH_URL :: string where
  "SUBGRAPH_URL = ''https://dca-graph-node.livepeer.fun/subgraphs/name/livepeer''"

definition WINNING_TICKET_QUERY :: string where
  \<open>WINNING_TICKET_QUERY = ''\<newline>  query {{\<newline>    winningTicketRedeemedEvents(\<newline>      orderBy: timestamp\<newline>      orderDirection: desc\<newline>      where: {{sender: "{broadcaster}"}}\<newline>    ) {{\<newline>      id\<newline>      recipient {{\<newline>        id\<newline>        serviceURI\<newline>      }}\<newline>      winProb\<newline>      faceValueUSD\<newline>      faceValue\<newline>      timestamp\<newline>      sender {{\<newline>        id\<newline>        deposit\<newline>      }}\<newline>    }}\<newline>  }}\<newline>''\<close>

section \<open>Events and the subgraph client\<close>

text \<open>
  A \<open>winningTicketRedeemedEvents\<close> item with the fields the query selects; nested
  objects are flattened (\<open>recipient { id serviceURI }\<close>, \<open>sender { id deposit }\<close>),
  and the decimal amounts stay the strings the subgraph returns.
\<close>

record ticket_event =
  event_id :: string
  recipient_id :: string
  recipient_serviceURI :: "string option"
  winProb :: string
  faceValueUSD :: string
  faceValue :: string
  timestamp :: int
  sender_id :: string
  sender_deposit :: string

text \<open>
  \<open>client.execute(gql(q))\<close> for the transport at a URL: the result dict (its
  top-level keys) or the exception of the request, of the query parsing or of the
  schema fetch.
\<close>

type_synonym subgraph = "string \<Rightarrow> string \<Rightarrow> exc + (string \<Rightarrow> ticket_event list option)"

definition fetch_data_for_broadcaster ::
  "subgraph \<Rightarrow> string \<Rightarrow> string \<Rightarrow> string \<Rightarrow> exc + ticket_event list" where
  "fetch_data_for_broadcaster execute url query broadcaster =
     (case py_format query [(''broadcaster'', broadcaster)] of
        Inl e \<Rightarrow> Inl e
      | Inr broadcaster_query \<Rightarrow>
          (case execute url broadcaster_query of
             Inl e \<Rightarrow> Inl e
           | Inr result \<Rightarrow>
               (case result ''winningTicketRedeemedEvents'' of
                  None \<Rightarrow> Inl (KeyError ''winningTicketRedeemedEvents'')
                | Some winning_ticket_events \<Rightarrow> Inr winning_ticket_events)))"

section \<open>The totals loop\<close>

record 'f fee_totals =
  total_tickets :: nat
  total_face_value :: 'f
  total_face_value_USD :: 'f

datatype 'f fee_line =
    DataForBroadcaster string "ticket_event list"
  | TotalTickets nat
  | TotalFaceValue 'f
  | TotalFaceValueUSD 'f

text \<open>
  Lines 65--70, one broadcaster per step: fetch and print, add the ticket count, then
  the two sums. An exception anywhere ends the script (there is no \<open>try\<close>); the
  result carries it with the state and the output reached so far.
\<close>

fun fees_loop ::
  "subgraph \<Rightarrow> (string \<Rightarrow> exc + 'f::{zero,plus}) \<Rightarrow> string list \<Rightarrow> 'f fee_totals \<Rightarrow>
   'f fee_line list \<Rightarrow> exc option \<times> 'f fee_totals \<times> 'f fee_line list" where
  "fees_loop execute to_float [] t out = (None, t, out)"
| "fees_loop execute to_float (broadcaster # bs) t out =
     (case fetch_data_for_broadcaster execute SUBGRAPH_URL WINNING_TICKET_QUERY broadcaster of
        Inl e \<Rightarrow> (Some e, t, out)
      | Inr data \<Rightarrow>
          (let out' = out @ [DataForBroadcaster broadcaster data];
               t1 = t\<lparr>total_tickets := total_tickets t + length data\<rparr>
           in case py_map_exc (\<lambda>event. to_float (faceValue event)) data of
                Inl e \<Rightarrow> (Some e, t1, out')
              | Inr fvs \<Rightarrow>
                  (let t2 = t1\<lparr>total_face_value := total_face_value t1 + py_sum fvs\<rparr>
                   in case py_map_exc (\<lambda>event. to_float (faceValueUSD event)) data of
                        Inl e \<Rightarrow> (Some e, t2, out')
                      | Inr usds \<Rightarrow>
                          fees_loop execute to_float bs
                            (t2\<lparr>total_face_value_USD := total_face_value_USD t2 + py_sum usds\<rparr>) out')))"

text \<open>The module run: lowered broadcaster list, loop from zero totals, three prints.\<close>

definition run_get_ai_fees ::
  "subgraph \<Rightarrow> (string \<Rightarrow> exc + 'f::{zero,plus}) \<Rightarrow> exc option \<times> 'f fee_line list" where
  "run_get_ai_fees execute to_float =
     (let broadcasters = map py_lower KNOWN_AI_BROADCASTERS
      in case fees_loop execute to_float broadcasters
                \<lparr>total_tickets = 0, total_face_value = 0, total_face_value_USD = 0\<rparr> [] of
           (Some e, t, out) \<Rightarrow> (Some e, out)
         | (None, t, out) \<Rightarrow>
             (None, out @ [TotalTickets (total_tickets t), TotalFaceValue (total_face_value t),
                           TotalFaceValueUSD (total_face_value_USD t)]))"

section \<open>Example subgraphs\<close>

definition example_event :: "string \<Rightarrow> string \<Rightarrow> ticket_event" where
  "example_event fv usd = \<lparr>event_id = ''0x01'', recipient_id = ''0x02'', recipient_serviceURI = None,
     winProb = ''1'', faceValueUSD = usd, faceValue = fv, timestamp = 1700000000,
     sender_id = ''0x03'', sender_deposit = ''0''\<rparr>"

definition example_query :: "nat \<Rightarrow> exc + string" where
  "example_query i = py_format WINNING_TICKET_QUERY [(''broadcaster'', map py_lower KNOWN_AI_BROADCASTERS ! i)]"

text \<open>Zero, two and one events for the three broadcasters.\<close>

definition example_subgraph :: subgraph where
  "example_subgraph url q = Inr (\<lambda>k. if k = ''winningTicketRedeemedEvents'' then Some
     (if Inr q = example_query 0 then []
      else if Inr q = example_query 1 then [example_event ''1'' ''2'', example_event ''2'' ''4'']
      else [example_event ''3'' ''6'']) else None)"

text \<open>The same, but the request for the second broadcaster fails.\<close>

definition example_subgraph_down :: subgraph where
  "example_subgraph_down url q =
     (if Inr q = example_query 1 then Inl (RemoteError ''502 Bad Gateway'') else example_subgraph url q)"

text \<open>The same, but the second broadcaster's event carries an amount that does not parse.\<close>

definition example_subgraph_bad_amount :: subgraph where
  "example_subgraph_bad_amount url q =
     (if Inr q = example_query 1
      then Inr (\<lambda>k. if k = ''winningTicketRedeemedEvents'' then Some [example_event ''NaN?'' ''1''] else None)
      else example_subgraph url q)"

definition example_to_float :: "string \<Rightarrow> exc + int" where
  "example_to_float s = (case map_of [(''1'', 1), (''2'', 2), (''3'', 3), (''4'', 4), (''6'', 6)] s of
     Some x \<Rightarrow> Inr x | None \<Rightarrow> Inl (ValueError (''could not convert string to float: '' @ s)))"

section \<open>Lemmas\<close>

lemma py_format_escape_Cons:
  "py_format (escape_braces (c # s)) kw = map_sum id (Cons c) (py_format (escape_braces s) kw)"
  by (simp add: escape_braces_def)

text \<open>
  A prefix of broadcasters whose requests succeed and whose amounts parse: the loop
  continues after it with the updated totals and the printed data.
\<close>

lemma fees_loop_append:
  assumes "list_all2 (\<lambda>b d. fetch_data_for_broadcaster ex SUBGRAPH_URL WINNING_TICKET_QUERY b = Inr d) bs ds"
    and "\<forall>ev\<in>set (concat ds). to_float (faceValue ev) = Inr (fv ev) \<and> to_float (faceValueUSD ev) = Inr (usd ev)"
  shows "fees_loop ex to_float (bs @ rest) t out =
    fees_loop ex to_float rest
      (t\<lparr>total_tickets := total_tickets t + sum_list (map length ds),
         total_face_value := foldl (+) (total_face_value t) (map (\<lambda>d. py_sum (map fv d)) ds),
         total_face_value_USD := foldl (+) (total_face_value_USD t) (map (\<lambda>d. py_sum (map usd d)) ds)\<rparr>)
      (out @ map2 DataForBroadcaster bs ds)"
  using assms
proof (induction bs arbitrary: ds t out)
  case Nil
  then show ?case by simp
next
  case (Cons b bs)
  from Cons.prems(1) obtain d ds' where ds: "ds = d # ds'"
    and fetch: "fetch_data_for_broadcaster ex SUBGRAPH_URL WINNING_TICKET_QUERY b = Inr d"
    and rest: "list_all2 (\<lambda>b d. fetch_data_for_broadcaster ex SUBGRAPH_URL WINNING_TICKET_QUERY b = Inr d) bs ds'"
    by (auto simp: list_all2_Cons1)
  from Cons.prems(2) ds have fv: "py_map_exc (\<lambda>ev. to_float (faceValue ev)) d = Inr (map fv d)"
    and usd: "py_map_exc (\<lambda>ev. to_float (faceValueUSD ev)) d = Inr (map usd d)"
    by (simp_all add: py_simps)
  from Cons.prems(2) ds have "\<forall>ev\<in>set (concat ds'). to_float (faceValue ev) = Inr (fv ev) \<and>
      to_float (faceValueUSD ev) = Inr (usd ev)" by simp
  note IH = Cons.IH [OF rest this]
  show ?case by (simp add: ds fetch fv usd IH add.assoc)
qed

lemma fees_loop_ok:
  assumes "list_all2 (\<lambda>b d. fetch_data_for_broadcaster ex SUBGRAPH_URL WINNING_TICKET_QUERY b = Inr d) bs ds"
    and "\<forall>ev\<in>set (concat ds). to_float (faceValue ev) = Inr (fv ev) \<and> to_float (faceValueUSD ev) = Inr (usd ev)"
  shows "fees_loop ex to_float bs t out =
    (None, t\<lparr>total_tickets := total_tickets t + sum_list (map length ds),
             total_face_value := foldl (+) (total_face_value t) (map (\<lambda>d. py_sum (map fv d)) ds),
             total_face_value_USD := foldl (+) (total_face_value_USD t) (map (\<lambda>d. py_sum (map usd d)) ds)\<rparr>,
     out @ map2 DataForBroadcaster bs ds)"
  using fees_loop_append [OF assms, of "[]"] by simp

text \<open>The step at position \<open>k\<close> after a successful prefix.\<close>

lemma fees_loop_at:
  assumes "list_all2 (\<lambda>b d. fetch_data_for_broadcaster ex SUBGRAPH_URL WINNING_TICKET_QUERY b = Inr d) (take k bs) ds"
    and "\<forall>ev\<in>set (concat ds). to_float (faceValue ev) = Inr (fv ev) \<and> to_float (faceValueUSD ev) = Inr (usd ev)"
    and "k < length bs"
  shows "\<exists>t'. fees_loop ex to_float bs t out =
    fees_loop ex to_float (bs ! k # drop (Suc k) bs) t' (out @ map2 DataForBroadcaster (take k bs) ds)"
proof -
  from assms(3) have "bs = take k bs @ bs ! k # drop (Suc k) bs" by (simp add: id_take_nth_drop)
  then have eq: "fees_loop ex to_float bs t out =
      fees_loop ex to_float (take k bs @ bs ! k # drop (Suc k) bs) t out"
    by simp
  show ?thesis by (subst eq) (rule exI, rule fees_loop_append [OF assms(1,2)])
qed

lemma fees_loop_fetch_error:
  assumes "list_all2 (\<lambda>b d. fetch_data_for_broadcaster ex SUBGRAPH_URL WINNING_TICKET_QUERY b = Inr d) (take k bs) ds"
    and "k < length bs"
    and "fetch_data_for_broadcaster ex SUBGRAPH_URL WINNING_TICKET_QUERY (bs ! k) = Inl e"
    and "\<forall>ev\<in>set (concat ds). to_float (faceValue ev) = Inr (fv ev) \<and> to_float (faceValueUSD ev) = Inr (usd ev)"
  shows "fst (fees_loop ex to_float bs t out) = Some e \<and>
    snd (snd (fees_loop ex to_float bs t out)) = out @ map2 DataForBroadcaster (take k bs) ds"
  using fees_loop_at [OF assms(1,4,2), of t out] assms(3) by auto

lemma fees_loop_parse_error:
  assumes "list_all2 (\<lambda>b d. fetch_data_for_broadcaster ex SUBGRAPH_URL WINNING_TICKET_QUERY b = Inr d) (take k bs) ds"
    and "k < length bs"
    and "fetch_data_for_broadcaster ex SUBGRAPH_URL WINNING_TICKET_QUERY (bs ! k) = Inr d"
    and "py_map_exc (\<lambda>ev. to_float (faceValue ev)) d = Inl e"
    and "\<forall>ev\<in>set (concat ds). to_float (faceValue ev) = Inr (fv ev) \<and> to_float (faceValueUSD ev) = Inr (usd ev)"
  shows "fst (fees_loop ex to_float bs t out) = Some e \<and>
    snd (snd (fees_loop ex to_float bs t out)) =
      out @ map2 DataForBroadcaster (take k bs) ds @ [DataForBroadcaster (bs ! k) d]"
  using fees_loop_at [OF assms(1,5,2), of t out] assms(3,4) by (auto simp: Let_def)

text \<open>An aborted loop is an aborted run, with what the loop printed.\<close>

lemma run_get_ai_fees_abort:
  assumes "fst (fees_loop ex to_float (map py_lower KNOWN_AI_BROADCASTERS)
      \<lparr>total_tickets = 0, total_face_value = 0, total_face_value_USD = 0\<rparr> []) = Some e"
    and "snd (snd (fees_loop ex to_float (map py_lower KNOWN_AI_BROADCASTERS)
      \<lparr>total_tickets = 0, total_face_value = 0, total_face_value_USD = 0\<rparr> [])) = out"
  shows "run_get_ai_fees ex to_float = (Some e, out)"
  using assms
  by (cases "fees_loop ex to_float (map py_lower KNOWN_AI_BROADCASTERS)
      \<lparr>total_tickets = 0, total_face_value = 0, total_face_value_USD = 0\<rparr> []")
    (auto simp: run_get_ai_fees_def)

section \<open>Properties of the fee script\<close>

text \<open>
  C19. When every request succeeds and every amount parses, the script prints the data
  of each broadcaster in list order, then the number of tickets (the sum of the
  per-broadcaster counts) and the two totals, each the running \<open>+=\<close> of the
  per-broadcaster \<open>sum()\<close>s, in exactly that order of additions.
\<close>

theorem run_get_ai_fees_totals:
  assumes "list_all2 (\<lambda>b d. fetch_data_for_broadcaster ex SUBGRAPH_URL WINNING_TICKET_QUERY b = Inr d)
      (map py_lower KNOWN_AI_BROADCASTERS) datas"
    and "\<forall>ev\<in>set (concat datas). to_float (faceValue ev) = Inr (fv ev) \<and> to_float (faceValueUSD ev) = Inr (usd ev)"
  shows "run_get_ai_fees ex to_float =
    (None, map2 DataForBroadcaster (map py_lower KNOWN_AI_BROADCASTERS) datas @
      [TotalTickets (sum_list (map length datas)),
       TotalFaceValue (foldl (+) 0 (map (\<lambda>d. py_sum (map fv d)) datas)),
       TotalFaceValueUSD (foldl (+) 0 (map (\<lambda>d. py_sum (map usd d)) datas))])"
  using fees_loop_ok [OF assms] by (simp add: run_get_ai_fees_def)

lemma run_get_ai_fees_totals_witness:
  "run_get_ai_fees example_subgraph example_to_float =
    (None, map2 DataForBroadcaster (map py_lower KNOWN_AI_BROADCASTERS)
       [[], [example_event ''1'' ''2'', example_event ''2'' ''4''], [example_event ''3'' ''6'']] @
     [TotalTickets 3, TotalFaceValue 6, TotalFaceValueUSD 12])"
proof -
  have h1: "list_all2 (\<lambda>b d. fetch_data_for_broadcaster example_subgraph SUBGRAPH_URL WINNING_TICKET_QUERY b = Inr d)
      (map py_lower KNOWN_AI_BROADCASTERS)
      [[], [example_event ''1'' ''2'', example_event ''2'' ''4''], [example_event ''3'' ''6'']]"
    by code_simp
  have h2: "\<forall>ev\<in>set (concat [[], [example_event ''1'' ''2'', example_event ''2'' ''4''], [example_event ''3'' ''6'']]).
      example_to_float (faceValue ev) = Inr (case example_to_float (faceValue ev) of Inr x \<Rightarrow> x | Inl _ \<Rightarrow> 0) \<and>
      example_to_float (faceValueUSD ev) = Inr (case example_to_float (faceValueUSD ev) of Inr x \<Rightarrow> x | Inl _ \<Rightarrow> 0)"
    by code_simp
  show ?thesis using run_get_ai_fees_totals [OF h1 h2] by code_simp
qed

text \<open>
  C20. In exact arithmetic (any associative addition with zero) the printed totals are
  the number of all fetched events and the sums of the parsed \<open>faceValue\<close> and
  \<open>faceValueUSD\<close> fields over all events of all broadcasters together.
\<close>

theorem run_get_ai_fees_exact_sum:
  fixes to_float :: "string \<Rightarrow> exc + 'f::monoid_add"
  assumes "list_all2 (\<lambda>b d. fetch_data_for_broadcaster ex SUBGRAPH_URL WINNING_TICKET_QUERY b = Inr d)
      (map py_lower KNOWN_AI_BROADCASTERS) datas"
    and "\<forall>ev\<in>set (concat datas). to_float (faceValue ev) = Inr (fv ev) \<and> to_float (faceValueUSD ev) = Inr (usd ev)"
  shows "run_get_ai_fees ex to_float =
    (None, map2 DataForBroadcaster (map py_lower KNOWN_AI_BROADCASTERS) datas @
      [TotalTickets (length (concat datas)),
       TotalFaceValue (sum_list (map fv (concat datas))),
       TotalFaceValueUSD (sum_list (map usd (concat datas)))])"
proof -
  have sums: "foldl (+) 0 (map (\<lambda>d. py_sum (map g d)) datas) = sum_list (map g (concat datas))"
    for g :: "ticket_event \<Rightarrow> 'f"
    by (induction datas rule: rev_induct) (simp_all add: py_simps)
  show ?thesis
    using fees_loop_ok [OF assms] by (simp add: run_get_ai_fees_def sums length_concat)
qed

lemma run_get_ai_fees_exact_sum_witness:
  "run_get_ai_fees example_subgraph example_to_float =
    (None, map2 DataForBroadcaster (map py_lower KNOWN_AI_BROADCASTERS)
       [[], [example_event ''1'' ''2'', example_event ''2'' ''4''], [example_event ''3'' ''6'']] @
     [TotalTickets 3, TotalFaceValue (1 + 2 + 3), TotalFaceValueUSD (2 + 4 + 6)])"
proof -
  have h1: "list_all2 (\<lambda>b d. fetch_data_for_broadcaster example_subgraph SUBGRAPH_URL WINNING_TICKET_QUERY b = Inr d)
      (map py_lower KNOWN_AI_BROADCASTERS)
      [[], [example_event ''1'' ''2'', example_event ''2'' ''4''], [example_event ''3'' ''6'']]"
    by code_simp
  have h2: "\<forall>ev\<in>set (concat [[], [example_event ''1'' ''2'', example_event ''2'' ''4''], [example_event ''3'' ''6'']]).
      example_to_float (faceValue ev) = Inr (case example_to_float (faceValue ev) of Inr x \<Rightarrow> x | Inl _ \<Rightarrow> 0) \<and>
      example_to_float (faceValueUSD ev) = Inr (case example_to_float (faceValueUSD ev) of Inr x \<Rightarrow> x | Inl _ \<Rightarrow> 0)"
    by code_simp
  have v: "map (\<lambda>ev. case example_to_float (faceValue ev) of Inr x \<Rightarrow> x | Inl _ \<Rightarrow> 0)
        (concat [[], [example_event ''1'' ''2'', example_event ''2'' ''4''], [example_event ''3'' ''6'']]) = [1, 2, 3]"
     "map (\<lambda>ev. case example_to_float (faceValueUSD ev) of Inr x \<Rightarrow> x | Inl _ \<Rightarrow> 0)
        (concat [[], [example_event ''1'' ''2'', example_event ''2'' ''4''], [example_event ''3'' ''6'']]) = [2, 4, 6]"
    by code_simp+
  from run_get_ai_fees_exact_sum [OF h1 h2] show ?thesis by (simp only: v) (simp add: numeral_3_eq_3)
qed

text \<open>
  C21. The script has no error handling: if the request for the broadcaster at
  position \<open>k\<close> fails, the exception ends the run after the data of the first
  \<open>k\<close> broadcasters was printed, and no total is printed.
\<close>

theorem run_get_ai_fees_fetch_error:
  assumes "list_all2 (\<lambda>b d. fetch_data_for_broadcaster ex SUBGRAPH_URL WINNING_TICKET_QUERY b = Inr d)
      (take k (map py_lower KNOWN_AI_BROADCASTERS)) datas"
    and "k < length KNOWN_AI_BROADCASTERS"
    and "fetch_data_for_broadcaster ex SUBGRAPH_URL WINNING_TICKET_QUERY
           (map py_lower KNOWN_AI_BROADCASTERS ! k) = Inl e"
    and "\<forall>ev\<in>set (concat datas). to_float (faceValue ev) = Inr (fv ev) \<and> to_float (faceValueUSD ev) = Inr (usd ev)"
  shows "run_get_ai_fees ex to_float =
    (Some e, map2 DataForBroadcaster (take k (map py_lower KNOWN_AI_BROADCASTERS)) datas)"
proof -
  from assms(2) have "k < length (map py_lower KNOWN_AI_BROADCASTERS)" by simp
  from fees_loop_fetch_error [OF assms(1) this assms(3,4)] show ?thesis
    by (simp add: run_get_ai_fees_abort)
qed

lemma run_get_ai_fees_fetch_error_witness:
  "run_get_ai_fees example_subgraph_down example_to_float =
    (Some (RemoteError ''502 Bad Gateway''),
     [DataForBroadcaster (py_lower (hd KNOWN_AI_BROADCASTERS)) []])"
proof -
  have h1: "list_all2 (\<lambda>b d. fetch_data_for_broadcaster example_subgraph_down SUBGRAPH_URL WINNING_TICKET_QUERY b = Inr d)
      (take 1 (map py_lower KNOWN_AI_BROADCASTERS)) [[]]"
    by code_simp
  have h2: "1 < length KNOWN_AI_BROADCASTERS" by (simp add: KNOWN_AI_BROADCASTERS_def)
  have h3: "fetch_data_for_broadcaster example_subgraph_down SUBGRAPH_URL WINNING_TICKET_QUERY
      (map py_lower KNOWN_AI_BROADCASTERS ! 1) = Inl (RemoteError ''502 Bad Gateway'')"
    by code_simp
  have h4: "\<forall>ev\<in>set (concat [[]]). example_to_float (faceValue ev) = Inr 0 \<and> example_to_float (faceValueUSD ev) = Inr 0"
    by simp
  from run_get_ai_fees_fetch_error [OF h1 h2 h3 h4] show ?thesis
    by (simp add: KNOWN_AI_BROADCASTERS_def)
qed

text \<open>
  C23. An amount that \<open>float()\<close> rejects ends the run with that exception, after
  the data of the broadcaster it belongs to was printed; no total is printed.
\<close>

theorem run_get_ai_fees_parse_error:
  assumes "list_all2 (\<lambda>b d. fetch_data_for_broadcaster ex SUBGRAPH_URL WINNING_TICKET_QUERY b = Inr d)
      (take k (map py_lower KNOWN_AI_BROADCASTERS)) datas"
    and "k < length KNOWN_AI_BROADCASTERS"
    and "fetch_data_for_broadcaster ex SUBGRAPH_URL WINNING_TICKET_QUERY
           (map py_lower KNOWN_AI_BROADCASTERS ! k) = Inr d"
    and "py_map_exc (\<lambda>ev. to_float (faceValue ev)) d = Inl e"
    and "\<forall>ev\<in>set (concat datas). to_float (faceValue ev) = Inr (fv ev) \<and> to_float (faceValueUSD ev) = Inr (usd ev)"
  shows "run_get_ai_fees ex to_float =
    (Some e, map2 DataForBroadcaster (take k (map py_lower KNOWN_AI_BROADCASTERS)) datas @
       [DataForBroadcaster (map py_lower KNOWN_AI_BROADCASTERS ! k) d])"
proof -
  from assms(2) have "k < length (map py_lower KNOWN_AI_BROADCASTERS)" by simp
  from fees_loop_parse_error [OF assms(1) this assms(3,4,5)] show ?thesis
    by (simp add: run_get_ai_fees_abort)
qed

lemma run_get_ai_fees_parse_error_witness:
  "run_get_ai_fees example_subgraph_bad_amount example_to_float =
    (Some (ValueError ''could not convert string to float: NaN?''),
     [DataForBroadcaster (py_lower (KNOWN_AI_BROADCASTERS ! 0)) [],
      DataForBroadcaster (py_lower (KNOWN_AI_BROADCASTERS ! 1)) [example_event ''NaN?'' ''1'']])"
proof -
  have h1: "list_all2 (\<lambda>b d. fetch_data_for_broadcaster example_subgraph_bad_amount SUBGRAPH_URL
      WINNING_TICKET_QUERY b = Inr d) (take 1 (map py_lower KNOWN_AI_BROADCASTERS)) [[]]"
    by code_simp
  have h2: "1 < length KNOWN_AI_BROADCASTERS" by (simp add: KNOWN_AI_BROADCASTERS_def)
  have h3: "fetch_data_for_broadcaster example_subgraph_bad_amount SUBGRAPH_URL WINNING_TICKET_QUERY
      (map py_lower KNOWN_AI_BROADCASTERS ! 1) = Inr [example_event ''NaN?'' ''1'']"
    by code_simp
  have h4: "py_map_exc (\<lambda>ev. example_to_float (faceValue ev)) [example_event ''NaN?'' ''1''] =
      Inl (ValueError ''could not convert string to float: NaN?'')"
    by code_simp
  have h5: "\<forall>ev\<in>set (concat [[]]). example_to_float (faceValue ev) = Inr 0 \<and>
      example_to_float (faceValueUSD ev) = Inr 0"
    by simp
  from run_get_ai_fees_parse_error [OF h1 h2 h3 h4 h5] show ?thesis
    by (simp add: KNOWN_AI_BROADCASTERS_def)
qed

text \<open>
  C22. Round trip of the template escaping: formatting a text whose braces are all
  doubled gives the text back, whatever the keyword arguments. So a query template
  written this way reaches the subgraph at line 24 as exactly that text, whatever
  the broadcaster.
\<close>

theorem py_format_escape_roundtrip:
  "py_format (escape_braces s) kw = Inr s \<and>
   fetch_data_for_broadcaster ex url (escape_braces s) b =
     (case ex url s of
        Inl e \<Rightarrow> Inl e
      | Inr result \<Rightarrow>
          (case result ''winningTicketRedeemedEvents'' of
             None \<Rightarrow> Inl (KeyError ''winningTicketRedeemedEvents'')
           | Some d \<Rightarrow> Inr d))"
proof -
  have fmt: "py_format (escape_braces s) kw = Inr s" for kw
    by (induction s) (simp_all add: py_format_escape_Cons, simp add: escape_braces_def)
  then show ?thesis by (simp add: fetch_data_for_broadcaster_def)
qed

end
