(* ===== verification/PoolSteps.thy ===== *)
theory PoolSteps
  imports Pool
begin

text \<open>
  The pool walk of \<open>get_transcoder_pool\<close> (lines 37--51 of
  \<open>src/get_ai_orchs.py\<close>) as a small-step state machine. A state holds the
  two locals of the function (\<open>current_transcoder_addr\<close>, \<open>transcoders\<close>),
  the control point (before the first call, inside the \<open>while True\<close> loop, after
  the \<open>break\<close>, in the \<open>except\<close> branch) and the log of contract calls made so
  far. One step is one \<open>.call()\<close> and what the code does with its answer, so the
  spec's "one call per step" shape is a statement about the number of steps.
\<close>

datatype pool_phase = Start | Running | Done | Failed exc

datatype pool_call = FirstCall | NextCall address

record pool_state =
  ps_phase :: pool_phase
  ps_current :: address
  ps_transcoders :: "address list"
  ps_calls :: "pool_call list"

text \<open>The state on entry: no local bound yet, no call made.\<close>

definition pool_init :: pool_state where
  "pool_init = \<lparr>ps_phase = Start, ps_current = [], ps_transcoders = [], ps_calls = []\<rparr>"

text \<open>
  The steps. \<open>first_ok\<close>/\<open>first_err\<close>: line 38 and its exception; \<open>next_err\<close>:
  the call of lines 41--43 raises; \<open>next_null\<close>: it returns the sentinel and the
  loop breaks (lines 44--45); \<open>next_append\<close>: lines 46--47.
\<close>

inductive pool_step :: "bonding_manager \<Rightarrow> pool_state \<Rightarrow> pool_state \<Rightarrow> bool" for bm where
  first_ok: "ps_phase s = Start \<Longrightarrow> getFirstTranscoderInPool bm = Inr a \<Longrightarrow>
    pool_step bm s (s\<lparr>ps_phase := Running, ps_current := a, ps_transcoders := [a],
                      ps_calls := ps_calls s @ [FirstCall]\<rparr>)"
| first_err: "ps_phase s = Start \<Longrightarrow> getFirstTranscoderInPool bm = Inl e \<Longrightarrow>
    pool_step bm s (s\<lparr>ps_phase := Failed e, ps_calls := ps_calls s @ [FirstCall]\<rparr>)"
| next_err: "ps_phase s = Running \<Longrightarrow> getNextTranscoderInPool bm (ps_current s) = Inl e \<Longrightarrow>
    pool_step bm s (s\<lparr>ps_phase := Failed e, ps_calls := ps_calls s @ [NextCall (ps_current s)]\<rparr>)"
| next_null: "ps_phase s = Running \<Longrightarrow> getNextTranscoderInPool bm (ps_current s) = Inr NULL_ADDRESS \<Longrightarrow>
    pool_step bm s (s\<lparr>ps_phase := Done, ps_calls := ps_calls s @ [NextCall (ps_current s)]\<rparr>)"
| next_append: "ps_phase s = Running \<Longrightarrow> getNextTranscoderInPool bm (ps_current s) = Inr b \<Longrightarrow>
    b \<noteq> NULL_ADDRESS \<Longrightarrow>
    pool_step bm s (s\<lparr>ps_current := b, ps_transcoders := ps_transcoders s @ [b],
                      ps_calls := ps_calls s @ [NextCall (ps_current s)]\<rparr>)"

inductive_cases pool_stepE: "pool_step bm s t"

text \<open>
  The prefix of the pool seen so far: \<open>path_from bm a xs\<close> when
  \<open>getNextTranscoderInPool\<close> leads from \<open>a\<close> through the non-null addresses
  \<open>xs\<close> (with no claim about the call after them).
\<close>

fun path_from :: "bonding_manager \<Rightarrow> address \<Rightarrow> address list \<Rightarrow> bool" where
  "path_from bm a [] \<longleftrightarrow> True"
| "path_from bm a (b # bs) \<longleftrightarrow>
     b \<noteq> NULL_ADDRESS \<and> getNextTranscoderInPool bm a = Inr b \<and> path_from bm b bs"

text \<open>
  The invariant of the reachable states. Once the first call has answered \<open>x\<close>,
  \<open>transcoders\<close> is \<open>x\<close> followed by a path of the pool, and the call log is
  the first call followed by one \<open>getNextTranscoderInPool\<close> call per element, in
  order: for all elements but the last inside the loop, for all of them once the loop
  has left. Inside the loop \<open>current_transcoder_addr\<close> is the last element; after
  the \<open>break\<close> the last call answered the sentinel; in the \<open>except\<close> branch
  the last call raised the exception.
\<close>

definition pool_inv :: "bonding_manager \<Rightarrow> pool_state \<Rightarrow> bool" where
  "pool_inv bm s = (case ps_phase s of
       Start \<Rightarrow> s = pool_init
     | Running \<Rightarrow> (case ps_transcoders s of
          [] \<Rightarrow> False
        | x # ys \<Rightarrow> getFirstTranscoderInPool bm = Inr x \<and> path_from bm x ys \<and>
            ps_current s = last (x # ys) \<and>
            ps_calls s = FirstCall # map NextCall (butlast (x # ys)))
     | Done \<Rightarrow> (case ps_transcoders s of
          [] \<Rightarrow> False
        | x # ys \<Rightarrow> getFirstTranscoderInPool bm = Inr x \<and> path_from bm x ys \<and>
            getNextTranscoderInPool bm (last (x # ys)) = Inr NULL_ADDRESS \<and>
            ps_calls s = FirstCall # map NextCall (x # ys))
     | Failed e \<Rightarrow> (case ps_transcoders s of
          [] \<Rightarrow> getFirstTranscoderInPool bm = Inl e \<and> ps_calls s = [FirstCall]
        | x # ys \<Rightarrow> getFirstTranscoderInPool bm = Inr x \<and> path_from bm x ys \<and>
            getNextTranscoderInPool bm (last (x # ys)) = Inl e \<and>
            ps_calls s = FirstCall # map NextCall (x # ys)))"

text \<open>The state after the \<open>break\<close> on the pool \<open>xs\<close>.\<close>

definition pool_done_state :: "address list \<Rightarrow> pool_state" where
  "pool_done_state xs = \<lparr>ps_phase = Done, ps_current = last xs, ps_transcoders = xs,
     ps_calls = FirstCall # map NextCall xs\<rparr>"

text \<open>
  The state after the first call answered \<open>x\<close>, and the state in which a
  loop started in \<open>s\<close> leaves after the walk \<open>xs\<close> ending with \<open>r\<close>.
\<close>

definition pool_running_state :: "address \<Rightarrow> pool_state" where
  "pool_running_state x = \<lparr>ps_phase = Running, ps_current = x, ps_transcoders = [x],
     ps_calls = [FirstCall]\<rparr>"

definition pool_walk_state :: "pool_state \<Rightarrow> address list \<Rightarrow> exc option \<Rightarrow> pool_state" where
  "pool_walk_state s xs r = s\<lparr>ps_phase := (case r of None \<Rightarrow> Done | Some e \<Rightarrow> Failed e),
     ps_current := last (ps_current s # xs), ps_transcoders := ps_transcoders s @ xs,
     ps_calls := ps_calls s @ map NextCall (ps_current s # xs)\<rparr>"

section \<open>Lemmas\<close>

lemma map_butlast_snoc: "xs \<noteq> [] \<Longrightarrow> map f (butlast xs) @ [f (last xs)] = map f xs"
  by (induction xs) auto

lemma path_from_snoc:
  "path_from bm a (xs @ [b]) \<longleftrightarrow>
   path_from bm a xs \<and> b \<noteq> NULL_ADDRESS \<and> getNextTranscoderInPool bm (last (a # xs)) = Inr b"
  by (induction xs arbitrary: a) auto

lemma pool_step_inv: "pool_step bm s t \<Longrightarrow> pool_inv bm s \<Longrightarrow> pool_inv bm t"
  unfolding pool_inv_def
proof (induction rule: pool_step.induct)
  case (next_append s b)
  then show ?case
    by (auto simp: path_from_snoc map_butlast_snoc split: list.splits)
next
  case (next_null s)
  then show ?case
    by (auto simp: map_butlast_snoc split: list.splits)
next
  case (next_err s e)
  then show ?case
    by (auto simp: map_butlast_snoc split: list.splits)
qed (auto simp: pool_init_def split: list.splits)

lemma pool_steps_inv: "(pool_step bm)\<^sup>*\<^sup>* s t \<Longrightarrow> pool_inv bm s \<Longrightarrow> pool_inv bm t"
  by (induction rule: rtranclp_induct) (auto intro: pool_step_inv)

lemma pool_inv_init [simp]: "pool_inv bm pool_init"
  by (simp add: pool_inv_def pool_init_def)

lemma pool_walk_steps:
  "pool_walk bm a xs r \<Longrightarrow> ps_phase s = Running \<Longrightarrow> ps_current s = a \<Longrightarrow>
   (pool_step bm ^^ Suc (length xs)) s (pool_walk_state s xs r)"
proof (induction arbitrary: s rule: pool_walk.induct)
  case (walk_error bm a e)
  then show ?case
    using next_err [of s bm e] by (cases s) (simp add: pool_walk_state_def relcompp_apply)
next
  case (walk_end bm a)
  then show ?case
    using next_null [of s bm] by (cases s) (simp add: pool_walk_state_def relcompp_apply)
next
  case (walk_next bm a b xs r)
  let ?s' = "s\<lparr>ps_current := b, ps_transcoders := ps_transcoders s @ [b],
                ps_calls := ps_calls s @ [NextCall (ps_current s)]\<rparr>"
  from walk_next have "pool_step bm s ?s'" using next_append [of s bm b] by simp
  moreover from walk_next.IH [of ?s'] have "(pool_step bm ^^ Suc (length xs)) ?s' (pool_walk_state ?s' xs r)"
    using walk_next.prems by simp
  moreover have "pool_walk_state ?s' xs r = pool_walk_state s (b # xs) r"
    using walk_next.prems by (simp add: pool_walk_state_def)
  ultimately show ?case by (metis relpowp_Suc_I2 length_Cons)
qed

lemma pool_init_walk_steps:
  assumes "getFirstTranscoderInPool bm = Inr x" and "pool_walk bm x xs r"
  shows "(pool_step bm ^^ Suc (Suc (length xs))) pool_init
           (pool_walk_state (pool_running_state x) xs r)"
proof -
  have "pool_step bm pool_init (pool_running_state x)"
    using first_ok [of pool_init bm x] assms(1) by (simp add: pool_init_def pool_running_state_def)
  moreover have "(pool_step bm ^^ Suc (length xs)) (pool_running_state x)
      (pool_walk_state (pool_running_state x) xs r)"
    by (rule pool_walk_steps [OF assms(2)]) (simp_all add: pool_running_state_def)
  ultimately show ?thesis by (rule relpowp_Suc_I2)
qed

lemma pool_walk_state_done:
  "pool_walk_state (pool_running_state x) xs None = pool_done_state (x # xs)"
  by (simp add: pool_walk_state_def pool_running_state_def pool_done_state_def)

lemma two_pool_reach:
  "(pool_step two_pool_bm ^^ 3) pool_init (pool_done_state [example_addr 1, example_addr 2])"
proof -
  have f: "getFirstTranscoderInPool two_pool_bm = Inr (example_addr 1)"
    by (simp add: two_pool_bm_def)
  have "chain_from two_pool_bm (example_addr 1) [example_addr 2]" by code_simp
  then have "pool_walk two_pool_bm (example_addr 1) [example_addr 2] None"
    by (simp add: chain_from_walk)
  from pool_init_walk_steps [OF f this] show ?thesis
    by (simp add: pool_walk_state_done numeral_3_eq_3)
qed

section \<open>Properties of the step relation\<close>

text \<open>
  C26. Invariant: every state reachable from the entry of \<open>get_transcoder_pool\<close>
  satisfies \<open>pool_inv\<close>; in particular the list built so far is always the first
  address followed by a path of the pool, and each of its elements is asked for its
  successor at most once, in order.
\<close>

theorem pool_inv_reachable: "(pool_step bm)\<^sup>*\<^sup>* pool_init s \<Longrightarrow> pool_inv bm s"
  by (erule pool_steps_inv) simp

lemma pool_inv_reachable_witness:
  "(pool_step two_pool_bm)\<^sup>*\<^sup>* pool_init (pool_done_state [example_addr 1, example_addr 2]) \<and>
   pool_inv two_pool_bm (pool_done_state [example_addr 1, example_addr 2])"
proof -
  have r: "(pool_step two_pool_bm)\<^sup>*\<^sup>* pool_init (pool_done_state [example_addr 1, example_addr 2])"
    using two_pool_reach by (rule relpowp_imp_rtranclp)
  show ?thesis using r pool_inv_reachable [OF r] by simp
qed

text \<open>
  C27. Liveness: on a pool that holds the non-empty list \<open>xs\<close>, the run from the
  entry reaches the state after the \<open>break\<close> with \<open>transcoders = xs\<close> in
  exactly \<open>length xs + 1\<close> steps, having asked every element of the pool for its
  successor once, in pool order.
\<close>

theorem pool_holds_reaches_done:
  assumes "pool_holds bm xs" and "xs \<noteq> []"
  shows "(pool_step bm ^^ Suc (length xs)) pool_init (pool_done_state xs)"
proof -
  from assms obtain x xs' where xs: "xs = x # xs'" and first: "getFirstTranscoderInPool bm = Inr x"
    and chain: "chain_from bm x xs'"
    by (auto simp: pool_holds_def split: list.splits)
  from chain have "pool_walk bm x xs' None" by (simp add: chain_from_walk)
  from pool_init_walk_steps [OF first this] xs show ?thesis
    by (simp add: pool_walk_state_done)
qed

lemma pool_holds_reaches_done_witness:
  "pool_holds two_pool_bm [example_addr 1, example_addr 2] \<and>
   (pool_step two_pool_bm ^^ 3) pool_init (pool_done_state [example_addr 1, example_addr 2])"
proof -
  have h: "pool_holds two_pool_bm [example_addr 1, example_addr 2]" by code_simp
  show ?thesis using h pool_holds_reaches_done [OF h] by (simp add: numeral_3_eq_3)
qed

end
