(* ===== verification/Spec2Isabelle.thy ===== *)
theory Spec2Isabelle
  imports Contracts Fees PoolSteps
begin

text \<open>
  \<^bold>\<open>Verification development for get-livepeer-ai-stats.\<close>

  The repository holds two independent Python scripts.
  \<^item> \<open>src/get_ai_orchs.py\<close> walks the orchestrator pool of the Livepeer
    BondingManager contract (\<open>get_transcoder_pool\<close>), resolves each orchestrator's
    AI service URI through the AIServiceRegistry contract
    (\<open>get_ai_orchestrators_uris\<close>) and writes both lists to files under
    \<open>output/\<close>. Its module level checks \<open>INFURA_API_KEY\<close>, loads and decodes two
    ABI files and creates the output directory.
  \<^item> \<open>src/get_ai_fees.py\<close> queries a subgraph for the winning-ticket events of three
    known broadcasters and prints the ticket count and the summed face values.

  \<^bold>\<open>Theories.\<close>
  \<^item> \<open>Prelude\<close>: addresses and URIs as \<open>string\<close>, the exceptions as the datatype
    \<open>exc\<close>, the printed lines as \<open>out_line\<close>, and the Python runtime pieces the
    scripts use (truthiness of strings \<open>py_truthy_str\<close>, \<open>sum\<close> as \<open>py_sum\<close>,
    \<open>str.lower\<close> as \<open>py_lower\<close>, raising list comprehensions as \<open>py_map_exc\<close>).
  \<^item> \<open>PyJson\<close>: decoded JSON values as the datatype \<open>json\<close>, subscripting
    \<open>v["result"]\<close> (\<open>json_getitem\<close>, with its \<open>KeyError\<close>/\<open>TypeError\<close> cases),
    \<open>json.loads\<close> on a decoded value and \<open>json.load(f)["result"]\<close>
    (\<open>load_result\<close>); the text parser is a parameter returning a value or raising.
  \<^item> \<open>PyDict\<close>: the Python \<open>dict\<close> as an insertion-ordered association list;
    \<open>dict_setitem\<close> is \<open>d[k] = v\<close> (append a new key, replace in place otherwise).
  \<^item> \<open>Checksum\<close>: \<open>Web3.to_checksum_address\<close> as called at lines 22, 81 and
    85, on text input as \<open>eth_utils\<close> implements it: an optional \<open>0x\<close>/\<open>0X\<close>
    prefix (\<open>remove_0x_prefix\<close>), forty hex digits (\<open>is_hex_address\<close>) or
    \<open>ValueError\<close>, then the EIP-55 case rule over an abstract keccak hash (a
    parameter: no theorem depends on its values); \<open>is_address\<close> is the
    \<open>0x\<close>-prefixed form the function returns.
  \<^item> \<open>Pool\<close> (\<open>get_transcoder_pool\<close>, lines 28--51): the contract as the record
    \<open>bonding_manager\<close> of its two view calls, each returning an address or the
    exception of \<open>.call()\<close>; the \<open>while True\<close> loop as \<open>pool_loop\<close>, a
    \<open>partial_function (option)\<close> whose \<open>None\<close> is "never returns" (no fuel bound:
    the code has none, and the theorems say exactly when it returns); the whole
    function as \<open>get_transcoder_pool\<close>. Abstract specification: the inductive
    \<open>pool_walk\<close> (finite walks along \<open>getNextTranscoderInPool\<close>) and
    \<open>pool_holds bm xs\<close> (the contract's pool is the list \<open>xs\<close>).
  \<^item> \<open>Uris\<close> (\<open>get_ai_orchestrators_uris\<close>, lines 54--74): the registry as the
    record \<open>service_registry\<close>, the loop as \<open>uris_loop\<close> over the dict and the
    printed lines; abstract specification \<open>resolved_entries\<close>.
  \<^item> \<open>OrchsMain\<close> (lines 9--25 and 77--105): the process state \<open>proc_state\<close>
    (environment, files, directories, stdout); \<open>module_init\<close> (key check, the two
    ABI files read and decoded as lines 15--20 do, \<open>makedirs\<close>), \<open>main\<close> and
    \<open>run_get_ai_orchs\<close> by explicit state passing, the contracts as parameters;
    the file formats
    \<open>render_orchestrators\<close>, \<open>render_ai_orchestrators\<close> and a reader of them.
  \<^item> \<open>Fees\<close> (all of \<open>src/get_ai_fees.py\<close>): \<open>str.format\<close> as \<open>py_format\<close>
    (keyword fields, doubled braces, the \<open>ValueError\<close>/\<open>KeyError\<close>/\<open>IndexError\<close>
    cases), the template \<open>WINNING_TICKET_QUERY\<close> taken verbatim from the source,
    \<open>fetch_data_for_broadcaster\<close> over an abstract subgraph client (a function from
    URL and query text to the result dict or an exception), the loop \<open>fees_loop\<close>
    over the record \<open>fee_totals\<close>, and the module run \<open>run_get_ai_fees\<close>. Python
    floats are a type variable with its own \<open>0\<close> and \<open>+\<close>, \<open>float()\<close> a
    parameter that returns a value or raises; nothing assumes float addition is
    associative.
  \<^item> \<open>PoolSteps\<close>: the same function (lines 37--51) as the inductive small-step
    relation \<open>pool_step\<close> over the record \<open>pool_state\<close> (control point
    \<open>pool_phase\<close>, the locals \<open>current_transcoder_addr\<close> and \<open>transcoders\<close>,
    and the log of contract calls \<open>pool_call\<close>); one step is one \<open>.call()\<close> with
    what the code does with its answer; \<open>pool_inv\<close> is the invariant of the
    reachable states.
  \<^item> \<open>Contracts\<close> (lines 14, 18 and 77--87): the contract address constants, the
    provider \<open>Web3(Web3.HTTPProvider(RCP_URI))\<close> as the record \<open>web3_provider\<close>
    (RPC URI, address and loaded ABI to contract view), \<open>connect_contracts\<close> for the two
    \<open>w3.eth.contract(address=Web3.to_checksum_address(...))\<close> calls, and
    \<open>run_script\<close>, the whole script (module level, connection, \<open>main\<close>).
  \<^item> this theory: \<open>main_log\<close>, the lines a successful run prints, and the
    properties that span the components.

  \<^bold>\<open>What is proved.\<close>
  Pool: the walk returns exactly the pool (C1), the loop refines the abstract walk
  (C2), it returns iff the walk is finite (C3) and never returns on a cyclic pool
  (C4), every returned list is the chain and duplicate-free (C5), a failing call
  anywhere gives \<open>None\<close> and no partial list (C6), and the empty pool gives
  \<open>[NULL_ADDRESS]\<close> (C7). Uris: refinement of \<open>resolved_entries\<close> (C8), the
  dict invariant and no empty URI stored (C9), isolation of a failing lookup (C10),
  the printed diagnostics (C11). OrchsMain: a pool fault crashes \<open>main\<close> with
  \<open>TypeError\<close> after truncating \<open>main_orchestrators.txt\<close> (C12); a missing key
  (C13), a BondingManager ABI without \<open>"result"\<close> (C14) or an AIServiceRegistry
  ABI whose \<open>"result"\<close> is not JSON text (C15) stops the script at import before
  any effect; both output files read back to what was written (C16, C17). Fees: the
  printed totals in the code's exact order of additions (C19) and, in exact
  arithmetic, as the sums over all events (C20); a failing request (C21) or an
  unparsable amount (C23) aborts without totals; escaping round-trips through
  \<open>str.format\<close>, so such a template reaches the subgraph unchanged (C22).
  Checksum holds the general lemmas; they are stated as claims in Contracts, at the
  script's call sites: only letter case changes, so the contract addresses equal the
  constants up to case (C24); checksumming is idempotent, so the addresses handed to
  the provider are checksum addresses (C25); the function raises exactly on malformed
  input and otherwise returns a well-formed 42-character address, and none of the
  calls of lines 22, 81 and 85 raises (C28). PoolSteps: every reachable state
  satisfies the invariant, with one \<open>getNextTranscoderInPool\<close> call logged per
  element in order (C26); on a pool \<open>xs\<close> the run reaches the result in exactly
  \<open>length xs + 1\<close> steps, that is contract calls (C27). Contracts: the checksum
  calls of lines 81 and 85 never raise and wire each contract to its own constant
  (C29). Here: the orchestrator script end to end (C18), its exact printed log (C31),
  and, for a provider that ignores address case, the whole script for every hash with
  both output files read back to the pool and its resolved URIs (C30).

  \<^bold>\<open>Not modelled.\<close> The RPC transport, \<open>web3\<close>'s ABI encoding, the JSON
  text parser (a parameter: the decoded values and every exception of lines 16 and 20
  are modelled) and the GraphQL client; keccak-256 itself (the checksum takes the
  hash as a parameter) and \<open>to_checksum_address\<close> on \<open>bytes\<close> input, which the
  script never passes; the pool changing between two calls (each view call is a
  function of one pool state); memory exhaustion: on a cyclic pool the real loop
  appends until Python raises \<open>MemoryError\<close>, which line 48 would catch and turn
  into \<open>None\<close>, whereas the model has unbounded memory and the loop does not return
  (C4); the subgraph's page size (inside the client parameter); Python's printing of
  \<open>0\<close> against \<open>0.0\<close> when no event was fetched.

  \<^bold>\<open>Bounds and fuel.\<close> None is chosen: the \<open>while True\<close> loop is a
  \<open>partial_function (option)\<close> and the step relation has no step bound, so the
  termination and liveness theorems (C3, C4, C27) say exactly when the code
  returns rather than assuming it.

  \<^bold>\<open>Plan for the next sittings.\<close> \<open>str.format\<close>'s field-name grammar
  (attributes, indices, conversions) and its error cases against Python's; a step
  relation for the fee script's loop with the partial update of the totals.
\<close>

section \<open>The printed log\<close>

text \<open>
  The lines a successful run of \<open>main\<close> on the pool \<open>xs\<close> prints, in order.
\<close>

definition main_log :: "service_registry \<Rightarrow> address list \<Rightarrow> out_line list" where
  "main_log sr xs =
     [Text ''Fetching mainnet Orchestrators...'',
      Text (''Store the mainnet Orchestrators in '' @ MAIN_ORCHESTRATORS_PATH),
      Text ''Fetching AI Orchestrators...''] @ concat (map (uri_log sr) xs) @
     [Text (''Store the AI Orchestrators in '' @ AI_ORCHESTRATORS_PATH),
      TotalAIOrchestrators (length (resolved_entries sr xs))]"

section \<open>Lemmas\<close>

lemma main_pool_holds:
  assumes pool: "pool_holds bm xs" and ne: "xs \<noteq> []" and dir: "OUTPUT_DIR \<in> dirs st1"
  shows "\<exists>st'. main bm sr st1 = Some (None, st') \<and>
    files st' MAIN_ORCHESTRATORS_PATH = Some (render_orchestrators xs) \<and>
    files st' AI_ORCHESTRATORS_PATH = Some (render_ai_orchestrators (resolved_entries sr xs)) \<and>
    stdout st' = stdout st1 @ main_log sr xs"
proof -
  from pool ne obtain x xs' where xs: "xs = x # xs'"
    and first: "getFirstTranscoderInPool bm = Inr x" and chain: "chain_from bm x xs'"
    by (auto simp: pool_holds_def split: list.splits)
  from chain have "pool_walk bm x xs' None" by (simp add: chain_from_walk)
  then have "pool_loop bm x [x] = Some (Inr xs)"
    by (simp add: pool_loop_walk walk_result_def xs)
  with first have gtp: "get_transcoder_pool bm = Some (Some xs, [])"
    by (simp add: get_transcoder_pool_def)
  from chain_from_distinct [OF chain] xs have "distinct xs" by simp
  then have uris: "get_ai_orchestrators_uris sr xs =
      (resolved_entries sr xs, concat (map (uri_log sr) xs))"
    using uris_loop_resolved [of xs "[]" sr "[]"] uris_loop_log [of sr xs "[]" "[]"]
    by (simp add: get_ai_orchestrators_uris_def prod_eq_iff)
  from main_success [OF gtp dir uris] OUTPUT_paths_differ show ?thesis by (simp add: main_log_def)
qed

lemma read_back_outputs:
  assumes "\<forall>a\<in>set xs. is_address a"
    and "\<forall>(a, v)\<in>set d. a \<in> set xs \<and> CHR ''\<newline>'' \<notin> set v"
  shows "split_lines (render_orchestrators xs) = xs \<and>
    parse_ai_orchestrators (render_ai_orchestrators d) = d"
proof -
  from assms(1) have "\<forall>a\<in>set xs. CHR ''\<newline>'' \<notin> set a \<and> CHR '' '' \<notin> set a"
    by (blast dest: is_address_no_sep)
  with assms(2) have "\<forall>(a, v)\<in>set d. CHR '' '' \<notin> set a \<and> CHR ''\<newline>'' \<notin> set a \<and>
      CHR ''\<newline>'' \<notin> set v" by fastforce
  then have "parse_ai_orchestrators (render_ai_orchestrators d) = d" by (rule parse_render_ai)
  moreover from assms(1) have "split_lines (render_orchestrators xs) = xs"
    by (simp add: split_lines_render is_address_no_sep)
  ultimately show ?thesis by simp
qed

section \<open>The orchestrator script end to end\<close>

text \<open>
  C18. A run of \<open>get_ai_orchs.py\<close> on a non-empty pool whose module level succeeds
  (key set, both ABI files present and decoded) ends normally;
  \<open>main_orchestrators.txt\<close> holds the pool in order, \<open>ai_orchestrators.txt\<close>
  holds the pool members whose service URI is non-empty, with that URI, in pool order,
  and the last printed line is their count.
\<close>

theorem run_get_ai_orchs_end_to_end:
  assumes pool: "pool_holds bm xs" and ne: "xs \<noteq> []"
    and init: "module_init parse st = Inr (rcp_uri, a1, a2, st1)"
  shows "\<exists>st'. run_get_ai_orchs parse bm sr st = Some (None, st') \<and>
    files st' MAIN_ORCHESTRATORS_PATH = Some (render_orchestrators xs) \<and>
    files st' AI_ORCHESTRATORS_PATH = Some (render_ai_orchestrators (resolved_entries sr xs)) \<and>
    last (stdout st') = TotalAIOrchestrators (length (resolved_entries sr xs))"
proof -
  from init have "OUTPUT_DIR \<in> dirs st1" by (simp add: module_init_dirs)
  from main_pool_holds [OF pool ne this, of sr] init show ?thesis
    by (auto simp: run_get_ai_orchs_def main_log_def)
qed

lemma run_get_ai_orchs_end_to_end_witness:
  "\<exists>st'. run_get_ai_orchs example_json_parse two_pool_bm example_registry example_proc_state =
      Some (None, st') \<and>
    files st' MAIN_ORCHESTRATORS_PATH = Some (render_orchestrators [example_addr 1, example_addr 2]) \<and>
    files st' AI_ORCHESTRATORS_PATH = Some (render_ai_orchestrators
      [(example_addr 1, ''https://d.example:8935''), (example_addr 2, ''https://d.example:8935'')]) \<and>
    last (stdout st') = TotalAIOrchestrators 2"
proof -
  have h1: "pool_holds two_pool_bm [example_addr 1, example_addr 2]" by code_simp
  have h2: "[example_addr 1, example_addr 2] \<noteq> []" by simp
  have r: "resolved_entries example_registry [example_addr 1, example_addr 2] =
      [(example_addr 1, ''https://d.example:8935''), (example_addr 2, ''https://d.example:8935'')]"
    by code_simp
  from run_get_ai_orchs_end_to_end [OF h1 h2 module_init_example, of example_registry] show ?thesis
    unfolding r by (simp add: numeral_2_eq_2)
qed

text \<open>
  C30. The whole script, composed from all its parts: when the module level succeeds,
  the provider reads addresses regardless of case, the pool at the BondingManager
  address is non-empty and made of well-formed addresses, and service URIs hold no
  newline, the script ends normally for every hash, and reading the two output files
  back gives the pool, in order, and the pool members with a non-empty URI, with that
  URI, in pool order.
\<close>

theorem run_script_end_to_end:
  assumes ci: "\<forall>u a b abi. py_lower a = py_lower b \<longrightarrow>
      bonding_manager_at w3 u a abi = bonding_manager_at w3 u b abi \<and>
      service_registry_at w3 u a abi = service_registry_at w3 u b abi"
    and init: "module_init parse st = Inr (u, a1, a2, st1)"
    and pool: "pool_holds (bonding_manager_at w3 u BONDING_MANAGER_ADDRESS a1) xs" and ne: "xs \<noteq> []"
    and wf: "\<forall>a\<in>set xs. is_address a"
    and uris: "\<forall>a v. getServiceURI (service_registry_at w3 u AI_SERVICE_REGISTRY_ADDRESS a2) a = Inr v \<longrightarrow>
      CHR ''\<newline>'' \<notin> set v"
  shows "\<exists>st'. run_script h w3 parse st = Some (None, st') \<and>
    map_option split_lines (files st' MAIN_ORCHESTRATORS_PATH) = Some xs \<and>
    map_option parse_ai_orchestrators (files st' AI_ORCHESTRATORS_PATH) =
      Some (resolved_entries (service_registry_at w3 u AI_SERVICE_REGISTRY_ADDRESS a2) xs)"
proof -
  let ?bm = "bonding_manager_at w3 u BONDING_MANAGER_ADDRESS a1"
  let ?sr = "service_registry_at w3 u AI_SERVICE_REGISTRY_ADDRESS a2"
  from init have "OUTPUT_DIR \<in> dirs st1" by (simp add: module_init_dirs)
  from main_pool_holds [OF pool ne this, of ?sr] obtain st' where
    m: "main ?bm ?sr st1 = Some (None, st')"
    and f1: "files st' MAIN_ORCHESTRATORS_PATH = Some (render_orchestrators xs)"
    and f2: "files st' AI_ORCHESTRATORS_PATH = Some (render_ai_orchestrators (resolved_entries ?sr xs))"
    by blast
  have run: "run_script h w3 parse st = Some (None, st')"
    using init m connect_contracts_case_insensitive [OF ci, of h u a1 a2]
    by (simp add: run_script_def)
  have "\<forall>(a, v)\<in>set (resolved_entries ?sr xs). a \<in> set xs \<and> CHR ''\<newline>'' \<notin> set v"
    using uris by (blast dest: resolved_entries_set)
  from read_back_outputs [OF wf this] run f1 f2 show ?thesis by simp
qed

lemma run_script_end_to_end_witness:
  "\<exists>st'. run_script (\<lambda>s i. i mod 16) example_w3 example_json_parse example_proc_state =
      Some (None, st') \<and>
    map_option split_lines (files st' MAIN_ORCHESTRATORS_PATH) = Some [example_addr 1, example_addr 2] \<and>
    map_option parse_ai_orchestrators (files st' AI_ORCHESTRATORS_PATH) =
      Some [(example_addr 1, ''https://d.example:8935''), (example_addr 2, ''https://d.example:8935'')]"
proof -
  let ?u = "''https://arbitrum-mainnet.infura.io/v3/key''"
  have h1: "\<forall>u a b abi. py_lower a = py_lower b \<longrightarrow>
      bonding_manager_at example_w3 u a abi = bonding_manager_at example_w3 u b abi \<and>
      service_registry_at example_w3 u a abi = service_registry_at example_w3 u b abi"
    by (simp add: example_w3_def)
  have h3: "pool_holds (bonding_manager_at example_w3 ?u BONDING_MANAGER_ADDRESS (JArray []))
      [example_addr 1, example_addr 2]"
    by (simp add: example_w3_def) code_simp
  have h4: "[example_addr 1, example_addr 2] \<noteq> []" by simp
  have h5: "\<forall>a\<in>set [example_addr 1, example_addr 2]. is_address a" by code_simp
  have h6: "\<forall>a v. getServiceURI (service_registry_at example_w3 ?u AI_SERVICE_REGISTRY_ADDRESS (JArray [])) a =
      Inr v \<longrightarrow> CHR ''\<newline>'' \<notin> set v"
    by (simp add: example_w3_def example_registry_def)
  have r: "resolved_entries (service_registry_at example_w3 ?u AI_SERVICE_REGISTRY_ADDRESS (JArray []))
      [example_addr 1, example_addr 2] =
      [(example_addr 1, ''https://d.example:8935''), (example_addr 2, ''https://d.example:8935'')]"
    by (simp add: example_w3_def) code_simp
  from run_script_end_to_end [OF h1 module_init_example h3 h4 h5 h6, of "\<lambda>s i. i mod 16"] show ?thesis
    unfolding r .
qed

text \<open>
  C31. Observability of a successful run: on a non-empty pool \<open>xs\<close> whose module
  level succeeds, \<open>run_get_ai_orchs\<close> prints exactly the three progress lines, then
  for each pool member in order its line (the URI when it resolved to a non-empty one,
  the exception when the lookup failed, nothing for an empty URI), then the store line
  and the total.
\<close>

theorem run_get_ai_orchs_log:
  assumes pool: "pool_holds bm xs" and ne: "xs \<noteq> []"
    and init: "module_init parse st = Inr (rcp_uri, a1, a2, st1)"
  shows "\<exists>st'. run_get_ai_orchs parse bm sr st = Some (None, st') \<and>
    stdout st' = stdout st @ main_log sr xs"
proof -
  from init have dir: "OUTPUT_DIR \<in> dirs st1" and out: "stdout st1 = stdout st"
    by (simp_all add: module_init_dirs)
  from main_pool_holds [OF pool ne dir, of sr] init out show ?thesis
    by (auto simp: run_get_ai_orchs_def)
qed

lemma run_get_ai_orchs_log_witness:
  "\<exists>st'. run_get_ai_orchs example_json_parse two_pool_bm example_registry example_proc_state =
      Some (None, st') \<and>
    stdout st' = main_log example_registry [example_addr 1, example_addr 2]"
proof -
  have h1: "pool_holds two_pool_bm [example_addr 1, example_addr 2]" by code_simp
  have h2: "[example_addr 1, example_addr 2] \<noteq> []" by simp
  from run_get_ai_orchs_log [OF h1 h2 module_init_example, of example_registry] show ?thesis
    by (simp add: example_proc_state_def)
qed

end
